theory Spec2Isabelle
  imports Complex_Main
begin

section \<open>MobileNetV3 with instance whitening: a model of network/MobilenetV3.py\<close>

text \<open>
  The development follows the Python module \<^verbatim>\<open>src/network/MobilenetV3.py\<close>.  The code of the
  module (argument checks, tuple plumbing, module lists, the accumulator of whitening
  matrices) is embedded as HOL functions.  What the module calls in the tensor library is
  kept symbolic: a tensor is its shape together with an expression that records which
  library operations produced it, and every library operation checks the shape of its
  argument and raises where the library raises.  Floating-point contents of tensors are not
  part of the model.
\<close>

subsection \<open>Exceptions\<close>

datatype error =
    TypeError string
  | ValueError string
  | IndexError
  | AttributeError
  | RuntimeError
  | ZeroDivisionError

subsection \<open>The Channel Adjuster\<close>

text \<open>
  \<^verbatim>\<open>_make_divisible(v: float, divisor: int, min_value: Optional[int] = None)\<close>, lines 70-76.
  The argument \<open>v\<close> is a Python float; the model computes with exact rationals, so
  \<open>0.9 * v\<close> is \<open>9/10 * v\<close> and \<open>v + divisor / 2\<close> is not rounded.  On the integral
  channel counts the module passes (and width multiplier 1) both agree.
  \<^verbatim>\<open>int(x)\<close> truncates towards zero; \<^verbatim>\<open>//\<close> is floor division and raises on a zero
  divisor.
\<close>

definition py_int :: "rat \<Rightarrow> int" where
  "py_int x = (if 0 \<le> x then \<lfloor>x\<rfloor> else \<lceil>x\<rceil>)"

definition make_divisible :: "rat \<Rightarrow> int \<Rightarrow> int option \<Rightarrow> error + int" where
  "make_divisible v divisor min_value =
     (let min_value' = (case min_value of None \<Rightarrow> divisor | Some m \<Rightarrow> m) in
      if divisor = 0 then Inl ZeroDivisionError
      else
        (let new_v = max min_value' (py_int (v + of_int divisor / 2) div divisor * divisor) in
         if of_int new_v < 9 / 10 * v then Inr (new_v + divisor) else Inr new_v))"

subsection \<open>Tensors\<close>

text \<open>
  A tensor is a shape and a symbolic expression.  The expression names the library
  operations that were applied, in order, so that two results can be compared without
  computing with floating-point numbers.
\<close>

datatype act = ReLU | Hardswish | Hardsigmoid | Sigmoid

record conv2d =
  c_in :: int
  c_out :: int
  c_kernel :: int
  c_stride :: int
  c_padding :: int
  c_dilation :: int
  c_groups :: int
  c_bias :: bool

datatype texpr =
    Given string
  | Item texpr nat
  | Conv2dE conv2d texpr
  | BatchNormE int texpr
  | ActE act texpr
  | InstanceNormE int bool texpr
  | WhitenE int texpr
  | WhitenAuxE int texpr
  | AddE texpr texpr
  | MulE texpr texpr
  | AvgPoolE texpr
  | FlattenE texpr
  | LinearE int int texpr
  | DropoutE rat texpr

datatype tensor = Tensor (shape: "nat list") (expr: texpr)

text \<open>
  The Python values that travel between the blocks: a tensor, a list, a tuple or
  \<^verbatim>\<open>None\<close>.  The pairs the blocks return are lists (\<^verbatim>\<open>[x, w_arr]\<close>).
\<close>

datatype pyval = PTensor tensor | PList "pyval list" | PTuple "pyval list" | PNone

subsection \<open>Python's operations on these values\<close>

text \<open>\<^verbatim>\<open>len(v)\<close>: the length of a sequence, the first dimension of a tensor; anything else raises.\<close>

fun py_len :: "pyval \<Rightarrow> error + nat" where
  "py_len (PList xs) = Inr (length xs)"
| "py_len (PTuple xs) = Inr (length xs)"
| "py_len (PTensor (Tensor (d # ds) e)) = Inr d"
| "py_len (PTensor (Tensor [] e)) = Inl (TypeError ''len() of a 0-d tensor'')"
| "py_len PNone = Inl (TypeError ''object of type NoneType has no len()'')"

text \<open>\<^verbatim>\<open>v[i]\<close> for a constant index \<open>i \<ge> 0\<close>.\<close>

fun py_getitem :: "pyval \<Rightarrow> nat \<Rightarrow> error + pyval" where
  "py_getitem (PList xs) i = (if i < length xs then Inr (xs ! i) else Inl IndexError)"
| "py_getitem (PTuple xs) i = (if i < length xs then Inr (xs ! i) else Inl IndexError)"
| "py_getitem (PTensor (Tensor (d # ds) e)) i =
     (if i < d then Inr (PTensor (Tensor ds (Item e i))) else Inl IndexError)"
| "py_getitem (PTensor (Tensor [] e)) i = Inl IndexError"
| "py_getitem PNone i = Inl (TypeError ''NoneType object is not subscriptable'')"

text \<open>\<^verbatim>\<open>w_arr.append(w)\<close>: only a list has the method.  The list is updated in place; the
  model returns the updated list.\<close>

fun py_append :: "pyval \<Rightarrow> pyval \<Rightarrow> error + pyval" where
  "py_append (PList xs) w = Inr (PList (xs @ [w]))"
| "py_append (PTuple xs) w = Inl AttributeError"
| "py_append (PTensor t) w = Inl AttributeError"
| "py_append PNone w = Inl AttributeError"

text \<open>\<^verbatim>\<open>x, w = v\<close>: unpacking into exactly two targets.\<close>

fun py_unpack2 :: "pyval \<Rightarrow> error + (pyval \<times> pyval)" where
  "py_unpack2 (PList xs) =
     (if length xs = 2 then Inr (xs ! 0, xs ! 1) else Inl (ValueError ''unpack''))"
| "py_unpack2 (PTuple xs) =
     (if length xs = 2 then Inr (xs ! 0, xs ! 1) else Inl (ValueError ''unpack''))"
| "py_unpack2 (PTensor (Tensor (d # ds) e)) =
     (if d = 2 then Inr (PTensor (Tensor ds (Item e 0)), PTensor (Tensor ds (Item e 1)))
      else Inl (ValueError ''unpack''))"
| "py_unpack2 (PTensor (Tensor [] e)) = Inl (TypeError ''iteration over a 0-d tensor'')"
| "py_unpack2 PNone = Inl (TypeError ''cannot unpack non-iterable NoneType object'')"

text \<open>Broadcasting of two shapes, aligned at their last dimension.\<close>

definition bdim :: "nat \<Rightarrow> nat \<Rightarrow> nat option" where
  "bdim a b = (if a = b then Some a else if a = 1 then Some b else if b = 1 then Some a else None)"

fun broadcast_rev :: "nat list \<Rightarrow> nat list \<Rightarrow> nat list option" where
  "broadcast_rev [] ys = Some ys"
| "broadcast_rev (x # xs) [] = Some (x # xs)"
| "broadcast_rev (x # xs) (y # ys) =
     (case bdim x y of
        None \<Rightarrow> None
      | Some d \<Rightarrow> (case broadcast_rev xs ys of None \<Rightarrow> None | Some ds \<Rightarrow> Some (d # ds)))"

definition broadcast :: "nat list \<Rightarrow> nat list \<Rightarrow> nat list option" where
  "broadcast s t = map_option rev (broadcast_rev (rev s) (rev t))"

text \<open>\<^verbatim>\<open>a + b\<close>: tensors are added with broadcasting, two lists or two tuples are
  concatenated, every other pair of operands raises.\<close>

fun py_add :: "pyval \<Rightarrow> pyval \<Rightarrow> error + pyval" where
  "py_add (PTensor a) (PTensor b) =
     (case broadcast (shape a) (shape b) of
        None \<Rightarrow> Inl RuntimeError
      | Some s \<Rightarrow> Inr (PTensor (Tensor s (AddE (expr a) (expr b)))))"
| "py_add (PList xs) (PList ys) = Inr (PList (xs @ ys))"
| "py_add (PTuple xs) (PTuple ys) = Inr (PTuple (xs @ ys))"
| "py_add a b = Inl (TypeError ''unsupported operand type(s) for +'')"

text \<open>\<^verbatim>\<open>a * b\<close> as the module uses it, on two tensors.\<close>

fun py_mul :: "pyval \<Rightarrow> pyval \<Rightarrow> error + pyval" where
  "py_mul (PTensor a) (PTensor b) =
     (case broadcast (shape a) (shape b) of
        None \<Rightarrow> Inl RuntimeError
      | Some s \<Rightarrow> Inr (PTensor (Tensor s (MulE (expr a) (expr b)))))"
| "py_mul a b = Inl (TypeError ''unsupported operand type(s) for *'')"

subsection \<open>Layers of the tensor library\<close>

text \<open>
  The layers the module instantiates.  \<open>Sequential_empty\<close> is \<^verbatim>\<open>nn.Sequential()\<close>, the
  identity.  \<open>InstanceWhitening\<close> is the class imported from \<^verbatim>\<open>network/instance_whitening.py\<close>,
  which is not among the sources.

  Constructing a layer is total in the model: the argument checks of the library's
  constructors (a non-positive number of groups, a negative kernel size) are not modelled,
  and an ill-formed convolution raises when it is applied.  Applying a layer checks the
  shape of the argument; conditions that depend on the training mode or on the contents of
  a tensor are not modelled.
\<close>

datatype layer =
    Conv2d conv2d
  | BatchNorm2d int
  | Activation act
  | InstanceWhitening int
  | InstanceNorm2d int bool
  | Sequential_empty
  | AdaptiveAvgPool2d
  | Linear int int
  | Dropout rat

text \<open>Output size of a convolution along one spatial dimension.\<close>

definition conv_size :: "conv2d \<Rightarrow> nat \<Rightarrow> nat option" where
  "conv_size cv n =
     (let m = int n + 2 * c_padding cv - c_dilation cv * (c_kernel cv - 1) - 1
      in if m < 0 then None else Some (nat (m div c_stride cv + 1)))"

definition conv_valid :: "conv2d \<Rightarrow> bool" where
  "conv_valid cv \<longleftrightarrow>
     1 \<le> c_in cv \<and> 1 \<le> c_out cv \<and> 1 \<le> c_kernel cv \<and> 1 \<le> c_stride cv \<and> 0 \<le> c_padding cv \<and>
     1 \<le> c_dilation cv \<and> 1 \<le> c_groups cv \<and>
     c_in cv mod c_groups cv = 0 \<and> c_out cv mod c_groups cv = 0"

fun conv2d_shape :: "conv2d \<Rightarrow> nat list \<Rightarrow> nat list option" where
  "conv2d_shape cv [n, c, h, w] =
     (if conv_valid cv \<and> int c = c_in cv then
        (case conv_size cv h of
           None \<Rightarrow> None
         | Some h' \<Rightarrow>
             (case conv_size cv w of
                None \<Rightarrow> None
              | Some w' \<Rightarrow> Some [n, nat (c_out cv), h', w']))
      else None)"
| "conv2d_shape cv [c, h, w] =
     (if conv_valid cv \<and> int c = c_in cv then
        (case conv_size cv h of
           None \<Rightarrow> None
         | Some h' \<Rightarrow>
             (case conv_size cv w of
                None \<Rightarrow> None
              | Some w' \<Rightarrow> Some [nat (c_out cv), h', w']))
      else None)"
| "conv2d_shape cv s = None"

text \<open>Batch normalisation over a batch of images: a 4-d argument with the layer's channels.\<close>

fun batch_norm_ok :: "int \<Rightarrow> nat list \<Rightarrow> bool" where
  "batch_norm_ok nf [n, c, h, w] = (int c = nf)"
| "batch_norm_ok nf s = False"

text \<open>Instance normalisation: a 3-d or 4-d argument; the channel count is checked only
  when the layer has affine parameters.\<close>

fun instance_norm_ok :: "int \<Rightarrow> bool \<Rightarrow> nat list \<Rightarrow> bool" where
  "instance_norm_ok nf affine [n, c, h, w] = (if affine then int c = nf else True)"
| "instance_norm_ok nf affine [c, h, w] = (if affine then int c = nf else True)"
| "instance_norm_ok nf affine s = False"

fun avg_pool_shape :: "nat list \<Rightarrow> nat list option" where
  "avg_pool_shape [n, c, h, w] = Some [n, c, 1, 1]"
| "avg_pool_shape [c, h, w] = Some [c, 1, 1]"
| "avg_pool_shape s = None"

fun linear_shape :: "int \<Rightarrow> int \<Rightarrow> nat list \<Rightarrow> nat list option" where
  "linear_shape i out [] = None"
| "linear_shape i out (d # ds) =
     (if int (last (d # ds)) = i \<and> 0 \<le> out then Some (butlast (d # ds) @ [nat out]) else None)"

text \<open>
  Modelled from the spec: the forward of \<open>InstanceWhitening\<close>, whose source file is missing.
  The spec (4.2) says that the instance-whitening variants normalise the per-instance
  feature statistics of an activation tensor and return the pair (normalised tensor,
  auxiliary whitening/covariance matrix).  The normalised tensor has the shape of the
  argument; the auxiliary matrix is a channel-by-channel matrix per instance.
\<close>

fun whitening_aux_shape :: "nat list \<Rightarrow> nat list option" where
  "whitening_aux_shape [n, c, h, w] = Some [n, c, c]"
| "whitening_aux_shape [c, h, w] = Some [c, c]"
| "whitening_aux_shape s = None"

definition InstanceWhitening_forward :: "int \<Rightarrow> tensor \<Rightarrow> error + pyval" where
  "InstanceWhitening_forward ch t =
     (case whitening_aux_shape (shape t) of
        None \<Rightarrow> Inl (ValueError ''expected 3D or 4D input'')
      | Some a \<Rightarrow>
          Inr (PTuple [PTensor (Tensor (shape t) (WhitenE ch (expr t))),
                       PTensor (Tensor a (WhitenAuxE ch (expr t)))]))"

text \<open>Applying a layer to a tensor.\<close>

fun layer_tensor :: "layer \<Rightarrow> tensor \<Rightarrow> error + pyval" where
  "layer_tensor (Conv2d cv) t =
     (case conv2d_shape cv (shape t) of
        None \<Rightarrow> Inl RuntimeError
      | Some s \<Rightarrow> Inr (PTensor (Tensor s (Conv2dE cv (expr t)))))"
| "layer_tensor (BatchNorm2d nf) t =
     (if batch_norm_ok nf (shape t) then Inr (PTensor (Tensor (shape t) (BatchNormE nf (expr t))))
      else Inl (ValueError ''batch norm: expected 4D input with matching channels''))"
| "layer_tensor (Activation a) t = Inr (PTensor (Tensor (shape t) (ActE a (expr t))))"
| "layer_tensor (InstanceWhitening ch) t = InstanceWhitening_forward ch t"
| "layer_tensor (InstanceNorm2d nf affine) t =
     (if instance_norm_ok nf affine (shape t)
      then Inr (PTensor (Tensor (shape t) (InstanceNormE nf affine (expr t))))
      else Inl (ValueError ''instance norm: expected 3D or 4D input with matching channels''))"
| "layer_tensor Sequential_empty t = Inr (PTensor t)"
| "layer_tensor AdaptiveAvgPool2d t =
     (case avg_pool_shape (shape t) of
        None \<Rightarrow> Inl RuntimeError
      | Some s \<Rightarrow> Inr (PTensor (Tensor s (AvgPoolE (expr t)))))"
| "layer_tensor (Linear i out) t =
     (case linear_shape i out (shape t) of
        None \<Rightarrow> Inl RuntimeError
      | Some s \<Rightarrow> Inr (PTensor (Tensor s (LinearE i out (expr t)))))"
| "layer_tensor (Dropout p) t = Inr (PTensor (Tensor (shape t) (DropoutE p (expr t))))"

text \<open>
  Calling a layer on a Python value, \<^verbatim>\<open>module(x)\<close>.  The empty \<^verbatim>\<open>nn.Sequential()\<close> returns
  its argument whatever it is; every other layer needs a tensor.  That includes
  \<open>InstanceWhitening\<close>, which the spec defines on activation tensors: called on a pair or on
  \<^verbatim>\<open>None\<close> it raises.
\<close>

fun layer_forward :: "layer \<Rightarrow> pyval \<Rightarrow> error + pyval" where
  "layer_forward Sequential_empty v = Inr v"
| "layer_forward l (PTensor t) = layer_tensor l t"
| "layer_forward l v = Inl (TypeError ''layer applied to a value that is not a tensor'')"

text \<open>\<^verbatim>\<open>torch.flatten(x, 1)\<close>.\<close>

fun flatten1 :: "pyval \<Rightarrow> error + pyval" where
  "flatten1 (PTensor (Tensor (n # d # ds) e)) = Inr (PTensor (Tensor [n, prod_list (d # ds)] (FlattenE e)))"
| "flatten1 (PTensor t) = Inl IndexError"
| "flatten1 v = Inl (TypeError ''flatten(): argument must be a tensor'')"

subsection \<open>The whitening step shared by the three blocks\<close>

text \<open>
  Lines 61-66, 135-140 and 280-285 are the same statement in the three forward methods:
  \<^verbatim>\<open>
  if self.iw >= 1:
      if self.iw == 1 or self.iw == 2:
          x, w = self.instance_norm_layer(x)
          w_arr.append(w)
      else:
          x = self.instance_norm_layer(x)
  \<close>
  The function returns the new \<open>x\<close> and the accumulator.
\<close>

definition whitening_step :: "int \<Rightarrow> layer \<Rightarrow> pyval \<Rightarrow> pyval \<Rightarrow> error + (pyval \<times> pyval)" where
  "whitening_step mode instance_norm_layer x w_arr =
     (if 1 \<le> mode then
        (if mode = 1 \<or> mode = 2 then
           (case layer_forward instance_norm_layer x of
              Inl e \<Rightarrow> Inl e
            | Inr r \<Rightarrow>
                (case py_unpack2 r of
                   Inl e \<Rightarrow> Inl e
                 | Inr (x', w) \<Rightarrow>
                     (case py_append w_arr w of
                        Inl e \<Rightarrow> Inl e
                      | Inr w_arr' \<Rightarrow> Inr (x', w_arr'))))
         else
           (case layer_forward instance_norm_layer x of
              Inl e \<Rightarrow> Inl e
            | Inr x' \<Rightarrow> Inr (x', w_arr)))
      else Inr (x, w_arr))"

subsection \<open>Squeeze-Excitation\<close>

text \<open>Class \<^verbatim>\<open>SqueezeExcitation\<close>, lines 18-67.  \<open>avgpool\<close> is always \<^verbatim>\<open>AdaptiveAvgPool2d(1)\<close>.\<close>

record SqueezeExcitation =
  se_fc1 :: conv2d
  se_fc2 :: conv2d
  se_activation :: act
  se_scale_activation :: act
  se_iw :: int
  se_instance_norm_layer :: layer

definition SqueezeExcitation_init :: "int \<Rightarrow> int \<Rightarrow> act \<Rightarrow> act \<Rightarrow> int \<Rightarrow> SqueezeExcitation" where
  "SqueezeExcitation_init input_channels squeeze_channels activation scale_activation iw =
     \<lparr>se_fc1 = \<lparr>c_in = input_channels, c_out = squeeze_channels, c_kernel = 1, c_stride = 1,
                c_padding = 0, c_dilation = 1, c_groups = 1, c_bias = True\<rparr>,
      se_fc2 = \<lparr>c_in = squeeze_channels, c_out = input_channels, c_kernel = 1, c_stride = 1,
                c_padding = 0, c_dilation = 1, c_groups = 1, c_bias = True\<rparr>,
      se_activation = activation,
      se_scale_activation = scale_activation,
      se_iw = iw,
      se_instance_norm_layer =
        (if iw = 1 then InstanceWhitening squeeze_channels
         else if iw = 2 then InstanceWhitening squeeze_channels
         else if iw = 3 then InstanceNorm2d squeeze_channels False
         else if iw = 4 then InstanceNorm2d squeeze_channels True
         else Sequential_empty)\<rparr>"

definition SqueezeExcitation_scale :: "SqueezeExcitation \<Rightarrow> pyval \<Rightarrow> error + pyval" where
  "SqueezeExcitation_scale se inp =
     (case layer_forward AdaptiveAvgPool2d inp of
        Inl e \<Rightarrow> Inl e
      | Inr s1 \<Rightarrow>
     (case layer_forward (Conv2d (se_fc1 se)) s1 of
        Inl e \<Rightarrow> Inl e
      | Inr s2 \<Rightarrow>
     (case layer_forward (Activation (se_activation se)) s2 of
        Inl e \<Rightarrow> Inl e
      | Inr s3 \<Rightarrow>
     (case layer_forward (Conv2d (se_fc2 se)) s3 of
        Inl e \<Rightarrow> Inl e
      | Inr s4 \<Rightarrow>
     (case layer_forward (se_instance_norm_layer se) s4 of
        Inl e \<Rightarrow> Inl e
      | Inr s5 \<Rightarrow> layer_forward (Activation (se_scale_activation se)) s5)))))"

text \<open>The part of \<^verbatim>\<open>forward\<close> after the length check (lines 55-56 and 60-67).\<close>

definition SqueezeExcitation_body :: "SqueezeExcitation \<Rightarrow> pyval \<Rightarrow> error + pyval" where
  "SqueezeExcitation_body se x_tuple =
     (case py_getitem x_tuple 0 of
        Inl e \<Rightarrow> Inl e
      | Inr x \<Rightarrow>
     (case py_getitem x_tuple 1 of
        Inl e \<Rightarrow> Inl e
      | Inr w_arr \<Rightarrow>
     (case SqueezeExcitation_scale se x of
        Inl e \<Rightarrow> Inl e
      | Inr scale \<Rightarrow>
     (case whitening_step (se_iw se) (se_instance_norm_layer se) scale w_arr of
        Inl e \<Rightarrow> Inl e
      | Inr (scale', w_arr') \<Rightarrow>
     (case py_mul scale' x of
        Inl e \<Rightarrow> Inl e
      | Inr y \<Rightarrow> Inr (PList [y, w_arr']))))))"

subsection \<open>Conv-Norm-Activation\<close>

text \<open>
  Class \<^verbatim>\<open>ConvNormActivation(nn.Sequential)\<close>, lines 79-144.  \<open>cna_modules\<close> is the list
  of registered children in order, which is what \<^verbatim>\<open>len(self)\<close> and \<^verbatim>\<open>enumerate(self)\<close>
  range over.  The constructor passes three or four layers to \<^verbatim>\<open>nn.Sequential\<close>, the
  last of them the whitening layer, and then executes (line 123)
  \<^verbatim>\<open>self.instance_norm_layer = instance_norm_layer\<close>.
  Assigning a module to an attribute of a module registers it as a child under the
  attribute's name, so the whitening layer is a child twice: at the last position given to
  \<^verbatim>\<open>nn.Sequential\<close> and once more at the end.  The normalisation layer is the default
  \<^verbatim>\<open>nn.BatchNorm2d\<close>, which is also what the network assembler passes.
\<close>

record ConvNormActivation =
  cna_modules :: "layer list"
  cna_iw :: int
  cna_instance_norm_layer :: layer

definition ConvNormActivation_init ::
  "int \<Rightarrow> int \<Rightarrow> int \<Rightarrow> int \<Rightarrow> int \<Rightarrow> int \<Rightarrow> act option \<Rightarrow> int \<Rightarrow> ConvNormActivation" where
  "ConvNormActivation_init in_planes out_planes kernel_size stride groups dilation activation_layer iw =
     (let padding = (kernel_size - 1) div 2;
          instance_norm_layer =
            (if iw = 1 then InstanceWhitening out_planes
             else if iw = 2 then InstanceWhitening out_planes
             else if iw = 3 then InstanceNorm2d out_planes False
             else if iw = 4 then InstanceNorm2d out_planes True
             else Sequential_empty);
          conv_layer = Conv2d \<lparr>c_in = in_planes, c_out = out_planes, c_kernel = kernel_size,
                               c_stride = stride, c_padding = padding, c_dilation = dilation,
                               c_groups = groups, c_bias = False\<rparr>;
          given =
            (case activation_layer of
               None \<Rightarrow> [conv_layer, BatchNorm2d out_planes, instance_norm_layer]
             | Some a \<Rightarrow> [conv_layer, BatchNorm2d out_planes, Activation a, instance_norm_layer])
      in \<lparr>cna_modules = given @ [instance_norm_layer],
          cna_iw = iw,
          cna_instance_norm_layer = instance_norm_layer\<rparr>)"

text \<open>The loop of lines 133-142; \<open>i\<close> is the index of the first module of the remaining list.\<close>

fun ConvNormActivation_loop ::
  "ConvNormActivation \<Rightarrow> nat \<Rightarrow> layer list \<Rightarrow> pyval \<Rightarrow> pyval \<Rightarrow> error + (pyval \<times> pyval)" where
  "ConvNormActivation_loop c i [] x w_arr = Inr (x, w_arr)"
| "ConvNormActivation_loop c i (m # rest) x w_arr =
     (if i + 1 = length (cna_modules c) then
        (case whitening_step (cna_iw c) (cna_instance_norm_layer c) x w_arr of
           Inl e \<Rightarrow> Inl e
         | Inr (x', w_arr') \<Rightarrow> ConvNormActivation_loop c (i + 1) rest x' w_arr')
      else
        (case layer_forward m x of
           Inl e \<Rightarrow> Inl e
         | Inr x' \<Rightarrow> ConvNormActivation_loop c (i + 1) rest x' w_arr))"

definition ConvNormActivation_body :: "ConvNormActivation \<Rightarrow> pyval \<Rightarrow> error + pyval" where
  "ConvNormActivation_body c x_tuple =
     (case py_getitem x_tuple 1 of
        Inl e \<Rightarrow> Inl e
      | Inr w_arr \<Rightarrow>
     (case py_getitem x_tuple 0 of
        Inl e \<Rightarrow> Inl e
      | Inr x \<Rightarrow>
     (case ConvNormActivation_loop c 0 (cna_modules c) x w_arr of
        Inl e \<Rightarrow> Inl e
      | Inr (x', w_arr') \<Rightarrow> Inr (PList [x', w_arr']))))"

subsection \<open>Printed output and the forward methods of the two inner blocks\<close>

datatype conv_item = CNA ConvNormActivation | SE SqueezeExcitation

text \<open>What \<^verbatim>\<open>print\<close> wrote: a string, or the representation of a module.\<close>

datatype out = Str string | Repr conv_item

text \<open>
  A forward method returns the lines it printed and either an exception or its value.
  A method that ends with a bare \<^verbatim>\<open>return\<close> returns \<^verbatim>\<open>None\<close>.
\<close>

definition SqueezeExcitation_forward :: "SqueezeExcitation \<Rightarrow> pyval \<Rightarrow> out list \<times> (error + pyval)" where
  "SqueezeExcitation_forward se x_tuple =
     (case py_len x_tuple of
        Inl e \<Rightarrow> ([], Inl e)
      | Inr n \<Rightarrow>
          if n = 2 then ([], SqueezeExcitation_body se x_tuple)
          else ([Str ''error in SE''], Inr PNone))"

definition ConvNormActivation_forward :: "ConvNormActivation \<Rightarrow> pyval \<Rightarrow> out list \<times> (error + pyval)" where
  "ConvNormActivation_forward c x_tuple =
     (case py_len x_tuple of
        Inl e \<Rightarrow> ([], Inl e)
      | Inr n \<Rightarrow>
          if n = 2 then ([], ConvNormActivation_body c x_tuple)
          else ([Str ''error in BN forward path''], Inr PNone))"

fun conv_item_forward :: "conv_item \<Rightarrow> pyval \<Rightarrow> out list \<times> (error + pyval)" where
  "conv_item_forward (CNA c) v = ConvNormActivation_forward c v"
| "conv_item_forward (SE se) v = SqueezeExcitation_forward se v"

subsection \<open>Block configurations\<close>

text \<open>
  Class \<^verbatim>\<open>InvertedResidualConfig\<close>, lines 150-176.  A configuration is a Python object:
  the assembler receives references to configurations and assigns to their \<open>iw\<close> attribute.
  The objects live in a heap, a list of records; a reference is an index into it, and a
  reference outside the heap stands for an object that is not a configuration.
\<close>

record InvertedResidualConfig =
  input_channels :: int
  kernel :: int
  expanded_channels :: int
  out_channels :: int
  use_se :: bool
  use_hs :: bool
  stride :: int
  dilation :: int
  iw :: int

type_synonym heap = "InvertedResidualConfig list"

definition adjust_channels :: "int \<Rightarrow> rat \<Rightarrow> error + int" where
  "adjust_channels channels width_mult = make_divisible (of_int channels * width_mult) 8 None"

text \<open>The constructor, lines 151-172; the arguments are in the order of the source.\<close>

definition InvertedResidualConfig_init ::
  "int \<Rightarrow> int \<Rightarrow> int \<Rightarrow> int \<Rightarrow> bool \<Rightarrow> string \<Rightarrow> int \<Rightarrow> int \<Rightarrow> rat \<Rightarrow> int
     \<Rightarrow> error + InvertedResidualConfig" where
  "InvertedResidualConfig_init ic k ec oc se activation s d width_mult mode =
     (case adjust_channels ic width_mult of
        Inl e \<Rightarrow> Inl e
      | Inr ic' \<Rightarrow>
     (case adjust_channels ec width_mult of
        Inl e \<Rightarrow> Inl e
      | Inr ec' \<Rightarrow>
     (case adjust_channels oc width_mult of
        Inl e \<Rightarrow> Inl e
      | Inr oc' \<Rightarrow>
          Inr \<lparr>input_channels = ic', kernel = k, expanded_channels = ec', out_channels = oc',
               use_se = se, use_hs = (activation = ''HS''), stride = s, dilation = d,
               iw = mode\<rparr>)))"

subsection \<open>Inverted Residual Block\<close>

text \<open>
  Class \<^verbatim>\<open>InvertedResidual\<close>, lines 179-287.  \<open>cnf\<close> is the reference to the configuration
  object (\<^verbatim>\<open>self.cnf = cnf\<close>); \<open>ir_iw\<close> is the copy \<^verbatim>\<open>self.iw = cnf.iw\<close> made by the
  constructor.  The Squeeze-Excitation layer is the default \<^verbatim>\<open>se_layer\<close>, with activation
  \<^verbatim>\<open>ReLU\<close>, scale activation \<^verbatim>\<open>Hardsigmoid\<close> and the default \<^verbatim>\<open>iw = 0\<close>.
\<close>

record InvertedResidual =
  use_res_connect :: bool
  cnf :: nat
  ir_iw :: int
  expand_ratio :: int
  conv :: "conv_item list"
  ir_instance_norm_layer :: layer
  ir_out_channels :: int
  is_cn :: bool

definition InvertedResidual_init :: "heap \<Rightarrow> nat \<Rightarrow> error + InvertedResidual" where
  "InvertedResidual_init h a =
     (if \<not> a < length h then Inl AttributeError
      else
       (let c = h ! a in
        if \<not> (1 \<le> stride c \<and> stride c \<le> 2) then Inl (ValueError ''illegal stride value'')
        else
         (let activation_layer = (if use_hs c then Hardswish else ReLU);
              expand =
                (if expanded_channels c \<noteq> input_channels c
                 then [CNA (ConvNormActivation_init (input_channels c) (expanded_channels c)
                              1 1 1 1 (Some activation_layer) (iw c))]
                 else []);
              stride' = (if dilation c > 1 then 1 else stride c);
              depthwise =
                [CNA (ConvNormActivation_init (expanded_channels c) (expanded_channels c)
                        (kernel c) stride' (expanded_channels c) (dilation c)
                        (Some activation_layer) (iw c))]
          in case (if use_se c
                   then (case make_divisible (of_int (expanded_channels c div 4)) 8 None of
                           Inl e \<Rightarrow> Inl e
                         | Inr squeeze_channels \<Rightarrow>
                             Inr [SE (SqueezeExcitation_init (expanded_channels c) squeeze_channels
                                        ReLU Hardsigmoid 0)])
                   else Inr []) of
               Inl e \<Rightarrow> Inl e
             | Inr se_part \<Rightarrow>
                 Inr \<lparr>use_res_connect = (stride c = 1 \<and> input_channels c = out_channels c),
                      cnf = a,
                      ir_iw = iw c,
                      expand_ratio = expanded_channels c,
                      conv = expand @ depthwise @ se_part @
                             [CNA (ConvNormActivation_init (expanded_channels c) (out_channels c)
                                     1 1 1 1 None (iw c))],
                      ir_instance_norm_layer =
                        (if iw c = 1 then InstanceWhitening (out_channels c)
                         else if iw c = 2 then InstanceWhitening (out_channels c)
                         else if iw c = 3 then InstanceNorm2d (out_channels c) False
                         else if iw c = 4 then InstanceNorm2d (out_channels c) False
                         else Sequential_empty),
                      ir_out_channels = out_channels c,
                      is_cn = (stride c > 1)\<rparr>)))"

text \<open>
  One stage of the forward method: \<^verbatim>\<open>print(self.conv[i])\<close> (when the source prints) and
  \<^verbatim>\<open>x_tuple = self.conv[i](x_tuple)\<close>.  Indexing \<^verbatim>\<open>self.conv\<close> past its end raises.
  The state is the output printed so far and the current \<open>x_tuple\<close>, or the exception.
\<close>

definition ir_stage ::
  "InvertedResidual \<Rightarrow> nat \<Rightarrow> bool \<Rightarrow> out list \<times> (error + pyval) \<Rightarrow> out list \<times> (error + pyval)" where
  "ir_stage b i printed st =
     (case st of
        (l, Inl e) \<Rightarrow> (l, Inl e)
      | (l, Inr x_tuple) \<Rightarrow>
          if i < length (conv b) then
            (case conv_item_forward (conv b ! i) x_tuple of
               (l', r) \<Rightarrow> (l @ (if printed then [Repr (conv b ! i)] else []) @ l', r))
          else (l, Inl IndexError))"

text \<open>Lines 256-271: the stages that are run.\<close>

definition ir_stages :: "heap \<Rightarrow> InvertedResidual \<Rightarrow> pyval \<Rightarrow> out list \<times> (error + pyval)" where
  "ir_stages h b x_tuple =
     (if \<not> cnf b < length h then ([], Inl AttributeError)
      else if expanded_channels (h ! cnf b) \<noteq> input_channels (h ! cnf b) then
        (let st = ir_stage b 2 True (ir_stage b 1 True (ir_stage b 0 True ([], Inr x_tuple)))
         in if length (conv b) > 3 then ir_stage b 3 False st else st)
      else ir_stage b 2 True (ir_stage b 1 True (ir_stage b 0 True ([], Inr x_tuple))))"

text \<open>Lines 273-287: the residual connection, the whitening step, the returned pair.\<close>

definition ir_finish :: "InvertedResidual \<Rightarrow> pyval \<Rightarrow> pyval \<Rightarrow> error + pyval" where
  "ir_finish b x x_tuple =
     (case py_getitem x_tuple 0 of
        Inl e \<Rightarrow> Inl e
      | Inr conv_x \<Rightarrow>
     (case py_getitem x_tuple 1 of
        Inl e \<Rightarrow> Inl e
      | Inr w_arr \<Rightarrow>
     (case (if use_res_connect b then py_add x conv_x else Inr conv_x) of
        Inl e \<Rightarrow> Inl e
      | Inr x1 \<Rightarrow>
     (case whitening_step (ir_iw b) (ir_instance_norm_layer b) x1 w_arr of
        Inl e \<Rightarrow> Inl e
      | Inr (x2, w_arr') \<Rightarrow> Inr (PList [x2, w_arr'])))))"

definition InvertedResidual_forward ::
  "heap \<Rightarrow> InvertedResidual \<Rightarrow> pyval \<Rightarrow> out list \<times> (error + pyval)" where
  "InvertedResidual_forward h b x_tuple =
     (case py_len x_tuple of
        Inl e \<Rightarrow> ([], Inl e)
      | Inr n \<Rightarrow>
          if n = 2 then
            (case py_getitem x_tuple 0 of
               Inl e \<Rightarrow> ([], Inl e)
             | Inr x \<Rightarrow>
                 (case ir_stages h b x_tuple of
                    (l, Inl e) \<Rightarrow> (l, Inl e)
                  | (l, Inr x_tuple') \<Rightarrow> (l, ir_finish b x x_tuple')))
          else ([Str ''error in invert residual forward path''], Inr PNone))"

subsection \<open>The network\<close>

text \<open>
  Class \<^verbatim>\<open>MobileNetV3\<close>, lines 290-389, with the default \<^verbatim>\<open>block\<close> (\<^verbatim>\<open>InvertedResidual\<close>)
  and the default normalisation layer.  The initialisation of the weights (lines 366-376)
  changes the contents of tensors only and is not part of the model.
\<close>

datatype feature = FConv ConvNormActivation | FBlock InvertedResidual

record MobileNetV3 =
  features :: "feature list"
  classifier :: "layer list"

definition iw_layer :: "int list" where
  "iw_layer = [0, 2, 7, 11, 12]"

text \<open>\<^verbatim>\<open>xs.index(x)\<close> and \<^verbatim>\<open>xs[i]\<close> on a list of integers.\<close>

fun py_index :: "int list \<Rightarrow> int \<Rightarrow> error + nat" where
  "py_index [] x = Inl (ValueError ''is not in list'')"
| "py_index (y # ys) x =
     (if y = x then Inr 0
      else (case py_index ys x of Inl e \<Rightarrow> Inl e | Inr n \<Rightarrow> Inr (Suc n)))"

definition py_item :: "int list \<Rightarrow> nat \<Rightarrow> error + int" where
  "py_item xs i = (if i < length xs then Inr (xs ! i) else Inl IndexError)"

text \<open>
  One turn of the loop of lines 334-342.  The state of the loop is the heap,
  \<open>feature_count\<close> and \<open>layers\<close>; \<open>sel\<close> is the constructor's argument \<^verbatim>\<open>iw\<close>, the list of
  whitening modes per layer group.  The assignment \<^verbatim>\<open>cnf.iw = ...\<close> updates the object in
  the heap, and the update stays when the construction of the block raises.
\<close>

definition block_step ::
  "int list \<Rightarrow> heap \<Rightarrow> int \<Rightarrow> feature list \<Rightarrow> nat \<Rightarrow> heap \<times> (error + int \<times> feature list)" where
  "block_step sel h feature_count layers a =
     (let feature_count' = feature_count + 1 in
      if feature_count' \<in> set iw_layer then
        (case py_index iw_layer feature_count' of
           Inl e \<Rightarrow> (h, Inl e)
         | Inr layer_group \<Rightarrow>
             (case py_item sel (layer_group + 2) of
                Inl e \<Rightarrow> (h, Inl e)
              | Inr mode \<Rightarrow>
                  (let h1 = h[a := (h ! a)\<lparr>iw := mode\<rparr>] in
                   case InvertedResidual_init h1 a of
                     Inl e \<Rightarrow> (h1, Inl e)
                   | Inr b \<Rightarrow> (h1, Inr (feature_count', layers @ [FBlock b])))))
      else
        (let h1 = h[a := (h ! a)\<lparr>iw := 0\<rparr>] in
         case InvertedResidual_init h1 a of
           Inl e \<Rightarrow> (h1, Inl e)
         | Inr b \<Rightarrow> (h1, Inr (feature_count', layers @ [FBlock b]))))"

fun block_loop ::
  "int list \<Rightarrow> heap \<Rightarrow> int \<Rightarrow> feature list \<Rightarrow> nat list \<Rightarrow> heap \<times> (error + int \<times> feature list)" where
  "block_loop sel h feature_count layers [] = (h, Inr (feature_count, layers))"
| "block_loop sel h feature_count layers (a # rest) =
     (case block_step sel h feature_count layers a of
        (h1, Inl e) \<Rightarrow> (h1, Inl e)
      | (h1, Inr (feature_count1, layers1)) \<Rightarrow> block_loop sel h1 feature_count1 layers1 rest)"

definition MobileNetV3_init ::
  "heap \<Rightarrow> nat list \<Rightarrow> int \<Rightarrow> int \<Rightarrow> rat \<Rightarrow> int list \<Rightarrow> heap \<times> (error + MobileNetV3)" where
  "MobileNetV3_init h inverted_residual_setting last_channel num_classes dropout sel =
     (if inverted_residual_setting = [] then
        (h, Inl (ValueError ''The inverted_residual_setting should not be empty''))
      else if \<not> list_all (\<lambda>a. a < length h) inverted_residual_setting then
        (h, Inl (TypeError ''The inverted_residual_setting should be List[InvertedResidualConfig]''))
      else
       (let firstconv_output_channels = input_channels (h ! hd inverted_residual_setting);
            layers = [FConv (ConvNormActivation_init 3 firstconv_output_channels 3 2 1 1
                               (Some Hardswish) 0)]
        in case block_loop sel h 0 layers inverted_residual_setting of
             (h1, Inl e) \<Rightarrow> (h1, Inl e)
           | (h1, Inr (feature_count, layers1)) \<Rightarrow>
               (let lastconv_input_channels = out_channels (h1 ! last inverted_residual_setting);
                    lastconv_output_channels = 6 * lastconv_input_channels
                in (h1, Inr \<lparr>features =
                               layers1 @
                               [FConv (ConvNormActivation_init lastconv_input_channels
                                         lastconv_output_channels 1 1 1 1 (Some Hardswish) 0)],
                             classifier =
                               [Linear lastconv_output_channels last_channel,
                                Activation Hardswish,
                                Dropout dropout,
                                Linear last_channel num_classes]\<rparr>))))"

text \<open>\<^verbatim>\<open>nn.Sequential.forward\<close>: each module is called on the value the one before returned.\<close>

fun feature_forward :: "heap \<Rightarrow> feature \<Rightarrow> pyval \<Rightarrow> out list \<times> (error + pyval)" where
  "feature_forward h (FConv c) v = ConvNormActivation_forward c v"
| "feature_forward h (FBlock b) v = InvertedResidual_forward h b v"

fun features_forward :: "heap \<Rightarrow> feature list \<Rightarrow> pyval \<Rightarrow> out list \<times> (error + pyval)" where
  "features_forward h [] v = ([], Inr v)"
| "features_forward h (m # ms) v =
     (case feature_forward h m v of
        (l, Inl e) \<Rightarrow> (l, Inl e)
      | (l, Inr v') \<Rightarrow> (case features_forward h ms v' of (l', r) \<Rightarrow> (l @ l', r)))"

fun layers_forward :: "layer list \<Rightarrow> pyval \<Rightarrow> error + pyval" where
  "layers_forward [] v = Inr v"
| "layers_forward (m # ms) v =
     (case layer_forward m v of Inl e \<Rightarrow> Inl e | Inr v' \<Rightarrow> layers_forward ms v')"

text \<open>\<^verbatim>\<open>_forward_impl\<close>, lines 378-386, and \<^verbatim>\<open>forward\<close>, lines 388-389.\<close>

definition MobileNetV3_forward_impl ::
  "heap \<Rightarrow> MobileNetV3 \<Rightarrow> tensor \<Rightarrow> out list \<times> (error + pyval)" where
  "MobileNetV3_forward_impl h model x =
     (case features_forward h (features model) (PTensor x) of
        (l, Inl e) \<Rightarrow> (l, Inl e)
      | (l, Inr x1) \<Rightarrow>
          (l, case layer_forward AdaptiveAvgPool2d x1 of
                Inl e \<Rightarrow> Inl e
              | Inr x2 \<Rightarrow>
                  (case flatten1 x2 of
                     Inl e \<Rightarrow> Inl e
                   | Inr x3 \<Rightarrow> layers_forward (classifier model) x3)))"

definition MobileNetV3_forward ::
  "heap \<Rightarrow> MobileNetV3 \<Rightarrow> tensor \<Rightarrow> out list \<times> (error + pyval)" where
  "MobileNetV3_forward h model x = MobileNetV3_forward_impl h model x"

subsection \<open>The small architecture\<close>

text \<open>
  \<^verbatim>\<open>_mobilenet_v3_conf\<close>, lines 392-419.  The eleven configurations are new objects, put
  at the end of the heap in the order of the list.
\<close>

fun new_configs :: "heap \<Rightarrow> (error + InvertedResidualConfig) list \<Rightarrow> heap \<times> (error + nat list)" where
  "new_configs h [] = (h, Inr [])"
| "new_configs h (Inl e # cs) = (h, Inl e)"
| "new_configs h (Inr c # cs) =
     (case new_configs (h @ [c]) cs of
        (h', Inl e) \<Rightarrow> (h', Inl e)
      | (h', Inr refs) \<Rightarrow> (h', Inr (length h # refs)))"

definition mobilenet_v3_conf ::
  "heap \<Rightarrow> string \<Rightarrow> rat \<Rightarrow> int \<Rightarrow> bool \<Rightarrow> bool \<Rightarrow> heap \<times> (error + nat list \<times> int)" where
  "mobilenet_v3_conf h arch width_mult mode reduced_tail dilated =
     (let reduce_divider = (if reduced_tail then 2 else 1);
          dilation' = (if dilated then 2 else 1);
          bneck_conf = (\<lambda>ic k ec oc se a s d. InvertedResidualConfig_init ic k ec oc se a s d width_mult mode)
      in if arch = ''mobilenet_v3_small'' then
           (case new_configs h
              [bneck_conf 16 3 16 16 True ''RE'' 2 1,
               bneck_conf 16 3 72 24 False ''RE'' 2 1,
               bneck_conf 24 3 88 24 False ''RE'' 1 1,
               bneck_conf 24 5 96 40 True ''HS'' 2 1,
               bneck_conf 40 5 240 40 True ''HS'' 1 1,
               bneck_conf 40 5 240 40 True ''HS'' 1 1,
               bneck_conf 40 5 120 48 True ''HS'' 1 1,
               bneck_conf 48 5 144 48 True ''HS'' 1 1,
               bneck_conf 48 5 288 (96 div reduce_divider) True ''HS'' 2 dilation',
               bneck_conf (96 div reduce_divider) 5 (576 div reduce_divider) (96 div reduce_divider)
                 True ''HS'' 1 dilation',
               bneck_conf (96 div reduce_divider) 5 (576 div reduce_divider) (96 div reduce_divider)
                 True ''HS'' 1 dilation'] of
              (h', Inl e) \<Rightarrow> (h', Inl e)
            | (h', Inr inverted_residual_setting) \<Rightarrow>
                (case adjust_channels (1024 div reduce_divider) width_mult of
                   Inl e \<Rightarrow> (h', Inl e)
                 | Inr last_channel \<Rightarrow> (h', Inr (inverted_residual_setting, last_channel))))
         else (h, Inl (ValueError ''Unsupported model type'')))"

subsection \<open>Concrete instances\<close>

text \<open>The first configuration of the small architecture, with whitening mode 4.\<close>

definition cfg_mode4 :: InvertedResidualConfig where
  "cfg_mode4 =
     \<lparr>input_channels = 16, kernel = 3, expanded_channels = 16, out_channels = 16,
      use_se = True, use_hs = False, stride = 2, dilation = 1, iw = 4\<rparr>"

text \<open>The first two configurations of the small architecture, built with \<^verbatim>\<open>iw=3\<close>.\<close>

definition two_configs :: heap where
  "two_configs =
     [\<lparr>input_channels = 16, kernel = 3, expanded_channels = 16, out_channels = 16,
       use_se = True, use_hs = False, stride = 2, dilation = 1, iw = 3\<rparr>,
      \<lparr>input_channels = 16, kernel = 3, expanded_channels = 72, out_channels = 24,
       use_se = False, use_hs = False, stride = 2, dilation = 1, iw = 3\<rparr>]"


text \<open>
  \<^verbatim>\<open>mobilenet_v3(iw=sel)\<close>, lines 422-429, without pretrained weights: the small architecture
  with width multiplier 1, 1000 classes and dropout 0.2.  The initial whitening mode of the
  configurations, which the assembler overwrites before it is read, is 0.
\<close>

definition mobilenet_v3 :: "int list \<Rightarrow> heap \<times> (error + MobileNetV3)" where
  "mobilenet_v3 sel =
     (case mobilenet_v3_conf [] ''mobilenet_v3_small'' 1 0 False False of
        (h, Inl e) \<Rightarrow> (h, Inl e)
      | (h, Inr (inverted_residual_setting, last_channel)) \<Rightarrow>
          MobileNetV3_init h inverted_residual_setting last_channel 1000 (1 / 5) sel)"

section \<open>Properties\<close>

subsection \<open>Channel Adjuster\<close>



lemma make_divisible_8: "\<exists>r. make_divisible v 8 None = Inr r"
  by (simp add: make_divisible_def Let_def)




subsection \<open>Construction of an Inverted Residual Block\<close>

text \<open>
  C6.  For a configuration object, the constructor of the Inverted Residual Block raises
  the configuration error \<^verbatim>\<open>ValueError("illegal stride value")\<close> if and only if the
  stride is neither 1 nor 2.
\<close>

theorem InvertedResidual_init_stride:
  assumes "a < length h"
  shows "InvertedResidual_init h a = Inl (ValueError ''illegal stride value'') \<longleftrightarrow>
         \<not> (stride (h ! a) = 1 \<or> stride (h ! a) = 2)"
proof -
  obtain sq where sq: "make_divisible (of_int (expanded_channels (h ! a) div 4)) 8 None = Inr sq"
    using make_divisible_8 by blast
  show ?thesis
    using assms sq by (auto simp: InvertedResidual_init_def Let_def)
qed

theorem InvertedResidual_init_stride_witness:
  "(0::nat) < length [cfg_mode4] \<and>
   InvertedResidual_init [cfg_mode4] 0 \<noteq> Inl (ValueError ''illegal stride value'') \<and>
   InvertedResidual_init [cfg_mode4\<lparr>stride := 3\<rparr>] 0 = Inl (ValueError ''illegal stride value'')"
  using InvertedResidual_init_stride [of 0 "[cfg_mode4]"]
        InvertedResidual_init_stride [of 0 "[cfg_mode4\<lparr>stride := 3\<rparr>]"]
  by (simp add: cfg_mode4_def)

subsection \<open>Whitening mode 4\<close>

text \<open>
  C7 at a block with whitening mode 4.  The Squeeze-Excitation and the
  Conv-Norm-Activation constructors select instance normalisation with affine parameters
  for mode 4; the constructor of the Inverted Residual Block selects instance normalisation
  without affine parameters (line 243 repeats line 241).
\<close>

theorem InvertedResidual_mode4_not_affine:
  "map_sum id ir_instance_norm_layer (InvertedResidual_init [cfg_mode4] 0) =
     Inr (InstanceNorm2d 16 False) \<and>
   cna_instance_norm_layer (ConvNormActivation_init 16 16 1 1 1 1 None 4) = InstanceNorm2d 16 True \<and>
   se_instance_norm_layer (SqueezeExcitation_init 16 8 ReLU Hardsigmoid 4) = InstanceNorm2d 8 True"
  by (simp add: cfg_mode4_def InvertedResidual_init_def make_divisible_def py_int_def Let_def
      ConvNormActivation_init_def SqueezeExcitation_init_def)

subsection \<open>Network assembly: whitening modes and configurations\<close>

lemma InvertedResidual_init_iw:
  assumes "InvertedResidual_init h a = Inr b"
  shows "a < length h \<and> ir_iw b = iw (h ! a)"
  using assms
  by (auto simp: InvertedResidual_init_def Let_def split: if_splits sum.splits)

lemma update_iw_frame:
  "map (\<lambda>c. c\<lparr>iw := 0\<rparr>) (h[a := (h ! a)\<lparr>iw := m\<rparr>]) = map (\<lambda>c. c\<lparr>iw := 0\<rparr>) h"
  by (cases "a < length h") (auto intro!: nth_equalityI simp: nth_list_update)

lemma block_step_frame:
  "map (\<lambda>c. c\<lparr>iw := 0\<rparr>) (fst (block_step sel h fc layers a)) = map (\<lambda>c. c\<lparr>iw := 0\<rparr>) h"
  by (simp add: block_step_def Let_def update_iw_frame split: sum.splits)

lemma block_loop_frame:
  "map (\<lambda>c. c\<lparr>iw := 0\<rparr>) (fst (block_loop sel h fc layers as)) = map (\<lambda>c. c\<lparr>iw := 0\<rparr>) h"
proof (induction as arbitrary: h fc layers)
  case Nil
  then show ?case by simp
next
  case (Cons a as)
  show ?case
  proof (cases "block_step sel h fc layers a")
    case (Pair h1 r)
    then have fr: "map (\<lambda>c. c\<lparr>iw := 0\<rparr>) h1 = map (\<lambda>c. c\<lparr>iw := 0\<rparr>) h"
      using block_step_frame [of sel h fc layers a] by simp
    show ?thesis
    proof (cases r)
      case (Inl e)
      then show ?thesis using Pair fr by simp
    next
      case (Inr p)
      then show ?thesis using Pair fr Cons.IH [of h1 "fst p" "snd p"]
        by (cases p) simp
    qed
  qed
qed

lemma MobileNetV3_init_frame:
  "map (\<lambda>c. c\<lparr>iw := 0\<rparr>) (fst (MobileNetV3_init h setting lc nc dr sel)) = map (\<lambda>c. c\<lparr>iw := 0\<rparr>) h"
proof (cases "setting = [] \<or> \<not> list_all (\<lambda>a. a < length h) setting")
  case True
  then show ?thesis by (auto simp: MobileNetV3_init_def)
next
  case False
  define layers where
    "layers = [FConv (ConvNormActivation_init 3 (input_channels (h ! hd setting)) 3 2 1 1 (Some Hardswish) 0)]"
  have "fst (MobileNetV3_init h setting lc nc dr sel) = fst (block_loop sel h 0 layers setting)"
    using False by (simp add: MobileNetV3_init_def Let_def layers_def split: prod.splits sum.splits)
  then show ?thesis by (simp add: block_loop_frame)
qed

lemma block_step_ok:
  assumes "block_step sel h fc layers a = (h1, Inr (fc1, layers1))" and "0 \<le> fc"
  shows "fc1 = fc + 1 \<and>
         (\<exists>b. layers1 = layers @ [FBlock b] \<and>
              Inr (ir_iw b) = (if fc1 = 2 then py_item sel 3 else if fc1 = 7 then py_item sel 4
                         else if fc1 = 11 then py_item sel 5 else if fc1 = 12 then py_item sel 6 else Inr 0))"
proof -
  have pos: "fc + 1 \<noteq> 0" using assms(2) by simp
  show ?thesis
    using assms(1) pos
    by (auto simp: block_step_def Let_def iw_layer_def eval_nat_numeral
             dest!: InvertedResidual_init_iw split: if_splits sum.splits)
qed

lemma block_loop_ok:
  assumes "block_loop sel h fc layers as = (h1, Inr (fc1, layers1))" and "0 \<le> fc"
  shows "\<exists>bs. layers1 = layers @ map FBlock bs \<and>
           map (\<lambda>b. Inr (ir_iw b)) bs =
             map (\<lambda>j. let p = fc + 1 + int j in
                       if p = 2 then py_item sel 3 else if p = 7 then py_item sel 4
                       else if p = 11 then py_item sel 5 else if p = 12 then py_item sel 6 else Inr 0)
               [0 ..< length as]"
  using assms
proof (induction as arbitrary: h fc layers)
  case Nil
  then show ?case by simp
next
  case (Cons a as)
  from Cons.prems(1) obtain h2 fc2 layers2 where
    st: "block_step sel h fc layers a = (h2, Inr (fc2, layers2))" and
    lp: "block_loop sel h2 fc2 layers2 as = (h1, Inr (fc1, layers1))"
    by (auto split: prod.splits sum.splits)
  from block_step_ok [OF st Cons.prems(2)] obtain b where
    b: "fc2 = fc + 1" "layers2 = layers @ [FBlock b]"
       "Inr (ir_iw b) = (if fc2 = 2 then py_item sel 3 else if fc2 = 7 then py_item sel 4
                   else if fc2 = 11 then py_item sel 5 else if fc2 = 12 then py_item sel 6 else Inr 0)"
    by blast
  have "0 \<le> fc2" using b(1) Cons.prems(2) by simp
  from Cons.IH [OF lp this] obtain bs where
    bs: "layers1 = layers2 @ map FBlock bs"
        "map (\<lambda>b. Inr (ir_iw b)) bs =
           map (\<lambda>j. let p = fc2 + 1 + int j in
                     if p = 2 then py_item sel 3 else if p = 7 then py_item sel 4
                     else if p = 11 then py_item sel 5 else if p = 12 then py_item sel 6 else Inr 0)
             [0 ..< length as]"
    by blast
  have "layers1 = layers @ map FBlock (b # bs)" using b(2) bs(1) by simp
  moreover have "map (\<lambda>b. Inr (ir_iw b)) (b # bs) =
           map (\<lambda>j. let p = fc + 1 + int j in
                     if p = 2 then py_item sel 3 else if p = 7 then py_item sel 4
                     else if p = 11 then py_item sel 5 else if p = 12 then py_item sel 6 else Inr 0)
             [0 ..< length (a # as)]"
    using b(1) b(3) bs(2)
    by (simp add: upt_conv_Cons map_Suc_upt [symmetric] Let_def add.commute add.left_commute del: upt_Suc)
  ultimately show ?case by blast
qed

text \<open>
  C2, as the code has it.  \<open>feature_count\<close> is incremented before it is looked up in
  \<open>[0, 2, 7, 11, 12]\<close>, so it is the 1-indexed position of the block, and the positions
  that take their whitening mode from the selector list are 2, 7, 11 and 12: position 2
  takes \<^verbatim>\<open>iw[3]\<close>, position 7 \<^verbatim>\<open>iw[4]\<close>, position 11 \<^verbatim>\<open>iw[5]\<close> and position 12
  \<^verbatim>\<open>iw[6]\<close>.  The block at every other position has whitening mode 0.  The feature list
  of an assembled network is the stem, one block per configuration and the head.
\<close>

theorem whitening_mode_by_position:
  assumes "MobileNetV3_init h setting last_channel num_classes dropout sel = (h', Inr model)"
  shows "\<exists>stem bs head.
           features model = FConv stem # map FBlock bs @ [FConv head] \<and>
           length bs = length setting \<and>
           map (\<lambda>b. Inr (ir_iw b)) bs =
             map (\<lambda>p. if p = 2 then py_item sel 3 else if p = 7 then py_item sel 4
                       else if p = 11 then py_item sel 5 else if p = 12 then py_item sel 6
                       else Inr 0)
               [1 ..< Suc (length setting)]"
proof -
  define stem where
    "stem = ConvNormActivation_init 3 (input_channels (h ! hd setting)) 3 2 1 1 (Some Hardswish) 0"
  from assms obtain fc layers1 head where
    lp: "block_loop sel h 0 [FConv stem] setting = (h', Inr (fc, layers1))" and
    ft: "features model = layers1 @ [FConv head]"
    by (auto simp: MobileNetV3_init_def Let_def stem_def split: if_splits prod.splits sum.splits)
  from block_loop_ok [OF lp] obtain bs where
    bs: "layers1 = [FConv stem] @ map FBlock bs"
        "map (\<lambda>b. Inr (ir_iw b)) bs =
           map (\<lambda>j. let p = 0 + 1 + int j in
                     if p = 2 then py_item sel 3 else if p = 7 then py_item sel 4
                     else if p = 11 then py_item sel 5 else if p = 12 then py_item sel 6 else Inr 0)
             [0 ..< length setting]"
    by auto
  have len: "length bs = length setting"
    using arg_cong [OF bs(2), of length] by simp
  have "map (\<lambda>b. Inr (ir_iw b)) bs =
             map (\<lambda>p. if p = 2 then py_item sel 3 else if p = 7 then py_item sel 4
                       else if p = 11 then py_item sel 5 else if p = 12 then py_item sel 6
                       else Inr 0)
               (map Suc [0 ..< length setting])"
    unfolding bs(2) by (simp add: Let_def)
  then have modes: "map (\<lambda>b. Inr (ir_iw b)) bs =
             map (\<lambda>p. if p = 2 then py_item sel 3 else if p = 7 then py_item sel 4
                       else if p = 11 then py_item sel 5 else if p = 12 then py_item sel 6
                       else Inr 0)
               [1 ..< Suc (length setting)]"
    by (simp only: map_Suc_upt One_nat_def)
  have "features model = FConv stem # map FBlock bs @ [FConv head]"
    using ft bs(1) by simp
  then show ?thesis using len modes by blast
qed

lemma two_configs_init:
  "\<exists>h' model. MobileNetV3_init two_configs [0, 1] 1024 1000 (1 / 5) [1, 2, 3, 4, 1, 2, 3] = (h', Inr model)"
  by (simp add: MobileNetV3_init_def block_step_def InvertedResidual_init_def make_divisible_def
      py_int_def iw_layer_def py_item_def Let_def two_configs_def)

theorem whitening_mode_by_position_witness:
  "\<exists>h' model.
     MobileNetV3_init two_configs [0, 1] 1024 1000 (1 / 5) [1, 2, 3, 4, 1, 2, 3] = (h', Inr model) \<and>
     (\<exists>stem bs head.
        features model = FConv stem # map FBlock bs @ [FConv head] \<and>
        map (\<lambda>b. Inr (ir_iw b)) bs = [Inr 0, Inr 4 :: error + int])"
proof -
  obtain h' model where
    eq: "MobileNetV3_init two_configs [0, 1] 1024 1000 (1 / 5) [1, 2, 3, 4, 1, 2, 3] = (h', Inr model)"
    using two_configs_init by blast
  from whitening_mode_by_position [OF eq] obtain stem bs head where
    f: "features model = FConv stem # map FBlock bs @ [FConv head]" and
    m: "map (\<lambda>b. Inr (ir_iw b)) bs =
          map (\<lambda>p. if p = 2 then py_item [1, 2, 3, 4, 1, 2, 3] 3
                    else if p = 7 then py_item [1, 2, 3, 4, 1, 2, 3] 4
                    else if p = 11 then py_item [1, 2, 3, 4, 1, 2, 3] 5
                    else if p = 12 then py_item [1, 2, 3, 4, 1, 2, 3] 6
                    else Inr 0)
            [1 ..< Suc (length [0, 1 :: nat])]"
    by blast
  have r: "map (\<lambda>b. Inr (ir_iw b)) bs = [Inr 0, Inr 4 :: error + int]"
    unfolding m by (simp add: py_item_def upt_conv_Cons)
  show ?thesis
    by (intro exI [of _ h'] exI [of _ model] exI [of _ stem] exI [of _ bs] exI [of _ head] conjI)
       (rule eq, rule f, rule r)
qed

text \<open>
  C2 as stated fails.  With two configurations and the selector \<open>[1, 2, 3, 4, 1, 2, 3]\<close>,
  which holds no 0, the block at position 1 has whitening mode 0, and the block at position
  2, which is not among the positions 1, 3, 8, 12, 13, has whitening mode 4 = \<^verbatim>\<open>iw[3]\<close>.
  The list below gives the modes of the stem, the two blocks and the head.
\<close>

theorem whitening_positions_counterexample:
  "(case MobileNetV3_init two_configs [0, 1] 1024 1000 (1 / 5) [1, 2, 3, 4, 1, 2, 3] of
      (h', Inl e) \<Rightarrow> False
    | (h', Inr model) \<Rightarrow>
        map (\<lambda>f. case f of FBlock b \<Rightarrow> ir_iw b | FConv c \<Rightarrow> cna_iw c) (features model) =
          [0, 0, 4, 0])"
  by (simp add: MobileNetV3_init_def block_step_def InvertedResidual_init_def make_divisible_def
      py_int_def iw_layer_def py_item_def Let_def two_configs_def ConvNormActivation_init_def)

text \<open>
  C9, as the code has it.  The constructor of a configuration computes the three channel
  counts with the Channel Adjuster.  Network assembly, whether it returns a network or
  raises, keeps the heap's size and leaves every field of every configuration unchanged
  except the whitening mode \<open>iw\<close>, which it assigns for each configuration of the sequence.
\<close>

theorem assembly_changes_only_iw:
  "(let h' = fst (MobileNetV3_init h setting last_channel num_classes dropout sel) in
      length h' = length h \<and>
      (\<forall>a < length h.
         input_channels (h' ! a) = input_channels (h ! a) \<and>
         kernel (h' ! a) = kernel (h ! a) \<and>
         expanded_channels (h' ! a) = expanded_channels (h ! a) \<and>
         out_channels (h' ! a) = out_channels (h ! a) \<and>
         use_se (h' ! a) = use_se (h ! a) \<and>
         use_hs (h' ! a) = use_hs (h ! a) \<and>
         stride (h' ! a) = stride (h ! a) \<and>
         dilation (h' ! a) = dilation (h ! a))) \<and>
   (InvertedResidualConfig_init ic k ec oc se activation s d width_mult mode = Inr c \<longrightarrow>
      adjust_channels ic width_mult = Inr (input_channels c) \<and>
      adjust_channels ec width_mult = Inr (expanded_channels c) \<and>
      adjust_channels oc width_mult = Inr (out_channels c))"
proof -
  define h' where "h' = fst (MobileNetV3_init h setting last_channel num_classes dropout sel)"
  have fr: "map (\<lambda>c. c\<lparr>iw := 0\<rparr>) h' = map (\<lambda>c. c\<lparr>iw := 0\<rparr>) h"
    unfolding h'_def by (rule MobileNetV3_init_frame)
  have len: "length h' = length h"
    using arg_cong [OF fr, of length] by simp
  have eq: "(h' ! a)\<lparr>iw := 0\<rparr> = (h ! a)\<lparr>iw := 0\<rparr>" if "a < length h" for a
    using arg_cong [OF fr, of "\<lambda>xs. xs ! a"] that len by simp
  have fields: "input_channels (h' ! a) = input_channels (h ! a) \<and>
         kernel (h' ! a) = kernel (h ! a) \<and>
         expanded_channels (h' ! a) = expanded_channels (h ! a) \<and>
         out_channels (h' ! a) = out_channels (h ! a) \<and>
         use_se (h' ! a) = use_se (h ! a) \<and>
         use_hs (h' ! a) = use_hs (h ! a) \<and>
         stride (h' ! a) = stride (h ! a) \<and>
         dilation (h' ! a) = dilation (h ! a)" if "a < length h" for a
    using arg_cong [OF eq [OF that], of input_channels] arg_cong [OF eq [OF that], of kernel]
      arg_cong [OF eq [OF that], of expanded_channels] arg_cong [OF eq [OF that], of out_channels]
      arg_cong [OF eq [OF that], of use_se] arg_cong [OF eq [OF that], of use_hs]
      arg_cong [OF eq [OF that], of stride] arg_cong [OF eq [OF that], of dilation]
    by simp
  have init: "InvertedResidualConfig_init ic k ec oc se activation s d width_mult mode = Inr c \<longrightarrow>
      adjust_channels ic width_mult = Inr (input_channels c) \<and>
      adjust_channels ec width_mult = Inr (expanded_channels c) \<and>
      adjust_channels oc width_mult = Inr (out_channels c)"
    by (auto simp: InvertedResidualConfig_init_def split: sum.splits)
  show ?thesis
    using len fields init unfolding Let_def h'_def [symmetric] by blast
qed

theorem assembly_changes_only_iw_witness:
  "(1::nat) < length two_configs \<and>
   InvertedResidualConfig_init 16 3 72 24 False ''RE'' 2 1 1 3 = Inr (two_configs ! 1) \<and>
   adjust_channels 72 1 = Inr (expanded_channels (two_configs ! 1)) \<and>
   stride (fst (MobileNetV3_init two_configs [0, 1] 1024 1000 (1 / 5) [1, 2, 3, 4, 1, 2, 3]) ! 1) =
     stride (two_configs ! 1)"
  using assembly_changes_only_iw [of two_configs "[0, 1]" 1024 1000 "1 / 5" "[1, 2, 3, 4, 1, 2, 3]"
          16 3 72 24 False "''RE''" 2 1 1 3 "two_configs ! 1"]
  by (simp add: Let_def two_configs_def InvertedResidualConfig_init_def adjust_channels_def
      make_divisible_def py_int_def)

text \<open>
  C9 as stated fails: assembly assigns to the \<open>iw\<close> field of the configurations it is
  given.  Both configurations below were built with whitening mode 3; after assembly they
  hold 0 and 4.
\<close>

theorem assembly_mutates_config_counterexample:
  "map iw two_configs = [3, 3] \<and>
   map iw (fst (MobileNetV3_init two_configs [0, 1] 1024 1000 (1 / 5) [1, 2, 3, 4, 1, 2, 3])) = [0, 4]"
  by (simp add: MobileNetV3_init_def block_step_def InvertedResidual_init_def make_divisible_def
      py_int_def iw_layer_def py_item_def Let_def two_configs_def)

subsection \<open>Malformed input of the block-level forward methods\<close>

text \<open>
  C8, as the code has it.  The three block-level forward methods test \<^verbatim>\<open>len(x_tuple) == 2\<close>.
  An input that has a length other than 2 (a list, a tuple, a tensor with at least one
  dimension) makes the call print its error line and return \<^verbatim>\<open>None\<close> without raising.
  An input that has no length (\<^verbatim>\<open>None\<close>, a 0-d tensor) makes \<^verbatim>\<open>len\<close> raise, and the
  call raises that exception before anything is printed.
\<close>

theorem malformed_input:
  "(case py_len v of
      Inl e \<Rightarrow>
        SqueezeExcitation_forward se v = ([], Inl e) \<and>
        ConvNormActivation_forward c v = ([], Inl e) \<and>
        InvertedResidual_forward h b v = ([], Inl e)
    | Inr n \<Rightarrow>
        n \<noteq> 2 \<longrightarrow>
        SqueezeExcitation_forward se v = ([Str ''error in SE''], Inr PNone) \<and>
        ConvNormActivation_forward c v = ([Str ''error in BN forward path''], Inr PNone) \<and>
        InvertedResidual_forward h b v = ([Str ''error in invert residual forward path''], Inr PNone))"
  by (cases "py_len v")
     (simp_all add: SqueezeExcitation_forward_def ConvNormActivation_forward_def
        InvertedResidual_forward_def)

theorem malformed_input_witness:
  "py_len (PList []) = Inr 0 \<and> (0::nat) \<noteq> 2 \<and>
   (\<forall>se c h b.
      SqueezeExcitation_forward se (PList []) = ([Str ''error in SE''], Inr PNone) \<and>
      ConvNormActivation_forward c (PList []) = ([Str ''error in BN forward path''], Inr PNone) \<and>
      InvertedResidual_forward h b (PList []) =
        ([Str ''error in invert residual forward path''], Inr PNone))"
  using malformed_input [where v = "PList []"] by simp

text \<open>
  C8 as stated fails at \<^verbatim>\<open>None\<close>, which is what a block returns on malformed input and
  so what the next block of a sequence receives: the call raises \<^verbatim>\<open>TypeError\<close> and
  prints nothing.
\<close>

theorem malformed_input_counterexample:
  "SqueezeExcitation_forward (SqueezeExcitation_init 16 8 ReLU Hardsigmoid 0) PNone =
     ([], Inl (TypeError ''object of type NoneType has no len()'')) \<and>
   ConvNormActivation_forward (ConvNormActivation_init 3 16 3 2 1 1 (Some Hardswish) 0) PNone =
     ([], Inl (TypeError ''object of type NoneType has no len()'')) \<and>
   map_sum id (\<lambda>b. InvertedResidual_forward [cfg_mode4] b PNone) (InvertedResidual_init [cfg_mode4] 0) =
     Inr ([], Inl (TypeError ''object of type NoneType has no len()''))"
  by (simp add: SqueezeExcitation_forward_def ConvNormActivation_forward_def
        InvertedResidual_forward_def InvertedResidual_init_def cfg_mode4_def make_divisible_def py_int_def Let_def)

subsection \<open>Squeeze-Excitation inside an Inverted Residual Block\<close>

lemma InvertedResidual_init_SE:
  assumes "InvertedResidual_init h a = Inr b" and "SE se \<in> set (conv b)"
  shows "\<exists>sq. make_divisible (of_int (expanded_channels (h ! a) div 4)) 8 None = Inr sq \<and>
              se = SqueezeExcitation_init (expanded_channels (h ! a)) sq ReLU Hardsigmoid 0"
  using assms
  by (auto simp: InvertedResidual_init_def Let_def split: if_splits sum.splits)

lemma bdim_same [simp]: "bdim a a = Some a"
  by (simp add: bdim_def)

lemma bdim_one [simp]: "bdim (Suc 0) a = Some a"
  by (simp add: bdim_def)

lemma conv_size_1x1 [simp]:
  "conv_size \<lparr>c_in = i, c_out = out, c_kernel = 1, c_stride = 1, c_padding = 0, c_dilation = 1,
              c_groups = g, c_bias = bi\<rparr> (Suc n) = Some (Suc n)"
  by (simp add: conv_size_def)

lemma SE_plain_forward:
  assumes se: "se = SqueezeExcitation_init ic sq ReLU Hardsigmoid 0"
    and v: "v = PList [PTensor x, w_arr] \<or> v = PTuple [PTensor x, w_arr]"
  shows "case SqueezeExcitation_forward se v of
           (l, Inl e) \<Rightarrow> l = []
         | (l, Inr r) \<Rightarrow>
             l = [] \<and>
             r = PList [PTensor (Tensor (shape x)
                          (MulE (ActE Hardsigmoid (Conv2dE (se_fc2 se)
                             (ActE ReLU (Conv2dE (se_fc1 se) (AvgPoolE (expr x))))))
                           (expr x))), w_arr]"
proof -
  have len: "py_len v = Inr 2" and g0: "py_getitem v 0 = Inr (PTensor x)"
    and g1: "py_getitem v (Suc 0) = Inr w_arr"
    using v by auto
  show ?thesis
  proof (cases "avg_pool_shape (shape x)")
    case None
    then show ?thesis
      by (simp add: SqueezeExcitation_forward_def SqueezeExcitation_body_def
          SqueezeExcitation_scale_def len g0 g1)
  next
    case (Some s)
    then consider (d4) n c hh ww where "shape x = [n, c, hh, ww]"
      | (d3) c hh ww where "shape x = [c, hh, ww]"
      by (auto elim: avg_pool_shape.elims)
    then show ?thesis
    proof cases
      case d4
      then show ?thesis
        by (auto simp: SqueezeExcitation_forward_def SqueezeExcitation_body_def
          SqueezeExcitation_scale_def len g0 g1 se SqueezeExcitation_init_def whitening_step_def broadcast_def
          split: option.splits)
    next
      case d3
      then show ?thesis
        by (auto simp: SqueezeExcitation_forward_def SqueezeExcitation_body_def
          SqueezeExcitation_scale_def len g0 g1 se SqueezeExcitation_init_def whitening_step_def broadcast_def
          split: option.splits)
    qed
  qed
qed

lemma SE_plain_returns:
  assumes se: "se = SqueezeExcitation_init ic sq ReLU Hardsigmoid 0"
    and v: "v = PList [PTensor x, w_arr] \<or> v = PTuple [PTensor x, w_arr]"
    and sh: "shape x = [n, nat ic, hh, ww]" and pos: "0 < ic" "0 < sq"
  shows "\<exists>r. SqueezeExcitation_forward se v = ([], Inr r)"
proof -
  have len: "py_len v = Inr 2" and g0: "py_getitem v 0 = Inr (PTensor x)"
    and g1: "py_getitem v (Suc 0) = Inr w_arr"
    using v by auto
  show ?thesis
    using pos
    by (simp add: SqueezeExcitation_forward_def SqueezeExcitation_body_def
          SqueezeExcitation_scale_def len g0 g1 se SqueezeExcitation_init_def whitening_step_def
          broadcast_def sh conv_valid_def)
qed

lemma make_divisible_8_pos:
  assumes "make_divisible v 8 None = Inr sq"
  shows "0 < sq"
  using assms by (auto simp: make_divisible_def Let_def max_def split: if_splits)

text \<open>
  C10.  Every Squeeze-Excitation module in the \<open>conv\<close> list of a constructed Inverted
  Residual Block has whitening mode 0 and the identity as its whitening layer, whatever
  the whitening mode of the block.  On a pair of a tensor and an accumulator list its
  forward prints nothing and, when it returns, returns the input tensor multiplied by the
  gate, where the gate is computed without any whitening or normalisation layer, together
  with the accumulator it was given; it returns on every 4-d tensor that has the block's
  expanded channel count.
\<close>

theorem SE_in_block_has_no_whitening:
  assumes "InvertedResidual_init h a = Inr b" and "SE se \<in> set (conv b)"
    and "v = PList [PTensor x, PList acc] \<or> v = PTuple [PTensor x, PList acc]"
  shows "se_iw se = 0 \<and> se_instance_norm_layer se = Sequential_empty \<and>
         (case SqueezeExcitation_forward se v of
            (l, Inl e) \<Rightarrow> l = []
          | (l, Inr r) \<Rightarrow>
              l = [] \<and>
              r = PList [PTensor (Tensor (shape x)
                           (MulE (ActE Hardsigmoid (Conv2dE (se_fc2 se)
                              (ActE ReLU (Conv2dE (se_fc1 se) (AvgPoolE (expr x))))))
                            (expr x))), PList acc]) \<and>
         (0 < expanded_channels (h ! a) \<and>
          (\<exists>n hh ww. shape x = [n, nat (expanded_channels (h ! a)), hh, ww]) \<longrightarrow>
            (\<exists>r. SqueezeExcitation_forward se v = ([], Inr r)))"
proof -
  from InvertedResidual_init_SE [OF assms(1,2)] obtain sq where
    sq: "make_divisible (of_int (expanded_channels (h ! a) div 4)) 8 None = Inr sq" and
    se: "se = SqueezeExcitation_init (expanded_channels (h ! a)) sq ReLU Hardsigmoid 0"
    by blast
  have modes: "se_iw se = 0 \<and> se_instance_norm_layer se = Sequential_empty"
    by (simp add: se SqueezeExcitation_init_def)
  have ret: "\<exists>r. SqueezeExcitation_forward se v = ([], Inr r)"
    if "0 < expanded_channels (h ! a)" "shape x = [n, nat (expanded_channels (h ! a)), hh, ww]"
    for n hh ww
  proof -
    have "0 < sq" using make_divisible_8_pos sq by blast
    then show ?thesis using SE_plain_returns [OF se assms(3) that(2) that(1)] by simp
  qed
  show ?thesis using modes SE_plain_forward [OF se assms(3)] ret by blast
qed

theorem SE_in_block_has_no_whitening_witness:
  "\<exists>b. InvertedResidual_init [cfg_mode4] 0 = Inr b \<and>
        SE (SqueezeExcitation_init 16 8 ReLU Hardsigmoid 0) \<in> set (conv b) \<and>
        ir_iw b = 4 \<and>
        SqueezeExcitation_forward (SqueezeExcitation_init 16 8 ReLU Hardsigmoid 0)
          (PList [PTensor (Tensor [1, 16, 56, 56] (Given ''x'')), PList [PNone]]) =
          ([], Inr (PList [PTensor (Tensor [1, 16, 56, 56]
                      (MulE (ActE Hardsigmoid
                         (Conv2dE (se_fc2 (SqueezeExcitation_init 16 8 ReLU Hardsigmoid 0))
                           (ActE ReLU
                             (Conv2dE (se_fc1 (SqueezeExcitation_init 16 8 ReLU Hardsigmoid 0))
                               (AvgPoolE (Given ''x''))))))
                        (Given ''x''))), PList [PNone]]))"
proof -
  obtain b where
    b: "InvertedResidual_init [cfg_mode4] 0 = Inr b" and
    se: "SE (SqueezeExcitation_init 16 8 ReLU Hardsigmoid 0) \<in> set (conv b)" and
    m: "ir_iw b = 4"
    by (simp add: InvertedResidual_init_def cfg_mode4_def make_divisible_def py_int_def Let_def)
  have v: "PList [PTensor (Tensor [1, 16, 56, 56] (Given ''x'')), PList [PNone]] =
             PList [PTensor (Tensor [1, 16, 56, 56] (Given ''x'')), PList [PNone]] \<or>
           PList [PTensor (Tensor [1, 16, 56, 56] (Given ''x'')), PList [PNone]] =
             PTuple [PTensor (Tensor [1, 16, 56, 56] (Given ''x'')), PList [PNone]]"
    by simp
  have "SqueezeExcitation_forward (SqueezeExcitation_init 16 8 ReLU Hardsigmoid 0)
          (PList [PTensor (Tensor [1, 16, 56, 56] (Given ''x'')), PList [PNone]]) =
          ([], Inr (PList [PTensor (Tensor [1, 16, 56, 56]
                      (MulE (ActE Hardsigmoid
                         (Conv2dE (se_fc2 (SqueezeExcitation_init 16 8 ReLU Hardsigmoid 0))
                           (ActE ReLU
                             (Conv2dE (se_fc1 (SqueezeExcitation_init 16 8 ReLU Hardsigmoid 0))
                               (AvgPoolE (Given ''x''))))))
                        (Given ''x''))), PList [PNone]]))"
    using SE_in_block_has_no_whitening [OF b se v]
    by (auto simp: cfg_mode4_def)
  then show ?thesis using b se m by blast
qed

subsection \<open>The top-level forward\<close>

lemma adjust_simps:
  "adjust_channels 16 1 = Inr 16" "adjust_channels 24 1 = Inr 24" "adjust_channels 40 1 = Inr 40"
  "adjust_channels 48 1 = Inr 48" "adjust_channels 72 1 = Inr 72" "adjust_channels 88 1 = Inr 88"
  "adjust_channels 96 1 = Inr 96" "adjust_channels 120 1 = Inr 120" "adjust_channels 144 1 = Inr 144"
  "adjust_channels 240 1 = Inr 240" "adjust_channels 288 1 = Inr 288" "adjust_channels 576 1 = Inr 576"
  "adjust_channels 1024 1 = Inr 1024"
  by (simp_all add: adjust_channels_def make_divisible_def py_int_def)

lemma mobilenet_v3_conf_small:
  "mobilenet_v3_conf [] ''mobilenet_v3_small'' 1 0 False False =
   ([\<lparr>input_channels = 16, kernel = 3, expanded_channels = 16,
      out_channels = 16, use_se = True, use_hs = False, stride = 2,
      dilation = 1, iw = 0\<rparr>,
   \<lparr>input_channels = 16, kernel = 3, expanded_channels = 72,
      out_channels = 24, use_se = False, use_hs = False, stride = 2,
      dilation = 1, iw = 0\<rparr>,
   \<lparr>input_channels = 24, kernel = 3, expanded_channels = 88,
      out_channels = 24, use_se = False, use_hs = False, stride = 1,
      dilation = 1, iw = 0\<rparr>,
   \<lparr>input_channels = 24, kernel = 5, expanded_channels = 96,
      out_channels = 40, use_se = True, use_hs = True, stride = 2,
      dilation = 1, iw = 0\<rparr>,
   \<lparr>input_channels = 40, kernel = 5, expanded_channels = 240,
      out_channels = 40, use_se = True, use_hs = True, stride = 1,
      dilation = 1, iw = 0\<rparr>,
   \<lparr>input_channels = 40, kernel = 5, expanded_channels = 240,
      out_channels = 40, use_se = True, use_hs = True, stride = 1,
      dilation = 1, iw = 0\<rparr>,
   \<lparr>input_channels = 40, kernel = 5, expanded_channels = 120,
      out_channels = 48, use_se = True, use_hs = True, stride = 1,
      dilation = 1, iw = 0\<rparr>,
   \<lparr>input_channels = 48, kernel = 5, expanded_channels = 144,
      out_channels = 48, use_se = True, use_hs = True, stride = 1,
      dilation = 1, iw = 0\<rparr>,
   \<lparr>input_channels = 48, kernel = 5, expanded_channels = 288,
      out_channels = 96, use_se = True, use_hs = True, stride = 2,
      dilation = 1, iw = 0\<rparr>,
   \<lparr>input_channels = 96, kernel = 5, expanded_channels = 576,
      out_channels = 96, use_se = True, use_hs = True, stride = 1,
      dilation = 1, iw = 0\<rparr>,
   \<lparr>input_channels = 96, kernel = 5, expanded_channels = 576,
      out_channels = 96, use_se = True, use_hs = True, stride = 1,
      dilation = 1, iw = 0\<rparr>],
  Inr ([0, 1, 2, 3, 4, 5, 6, 7, 8, 9, 10], 1024))"
  by (simp add: mobilenet_v3_conf_def InvertedResidualConfig_init_def adjust_simps Let_def)

lemma mobilenet_v3_plain: "\<exists>h' model. mobilenet_v3 [0, 0, 0, 0, 0, 0, 0] = (h', Inr model)"
  by (simp add: mobilenet_v3_def mobilenet_v3_conf_small MobileNetV3_init_def block_step_def InvertedResidual_init_def make_divisible_def
      py_int_def iw_layer_def py_item_def Let_def)


lemma features_forward_append:
  "features_forward h (xs @ ys) v =
     (case features_forward h xs v of
        (l, Inl e) \<Rightarrow> (l, Inl e)
      | (l, Inr v') \<Rightarrow> (case features_forward h ys v' of (l', r) \<Rightarrow> (l @ l', r)))"
  by (induction xs arbitrary: v) (auto split: prod.splits sum.splits)

lemma ConvNormActivation_forward_result:
  assumes "ConvNormActivation_forward c v = (l, Inr r)"
  shows "r = PNone \<or> (\<exists>x w. r = PList [x, w])"
  using assms
  by (auto simp: ConvNormActivation_forward_def ConvNormActivation_body_def
           split: sum.splits if_splits prod.splits)

lemma avgpool_of_block_result:
  assumes "r = PNone \<or> (\<exists>x w. r = PList [x, w])"
  shows "layer_forward AdaptiveAvgPool2d r = Inl (TypeError ''layer applied to a value that is not a tensor'')"
  using assms by auto

lemma forward_impl_raises:
  assumes "features model = layers @ [FConv head]"
  shows "\<exists>l e. MobileNetV3_forward h model x = (l, Inl e)"
proof (cases "features_forward h layers (PTensor x)")
  case (Pair l1 r1)
  show ?thesis
  proof (cases r1)
    case (Inl e)
    then show ?thesis
      using Pair assms
      by (simp add: MobileNetV3_forward_def MobileNetV3_forward_impl_def features_forward_append)
  next
    case (Inr v1)
    show ?thesis
    proof (cases "ConvNormActivation_forward head v1")
      case (Pair l2 r2)
      show ?thesis
      proof (cases r2)
        case (Inl e)
        then show ?thesis
          using Pair \<open>features_forward h layers (PTensor x) = (l1, r1)\<close> Inr assms
          by (simp add: MobileNetV3_forward_def MobileNetV3_forward_impl_def features_forward_append)
      next
        case (Inr v2)
        then have "layer_forward AdaptiveAvgPool2d v2 =
                     Inl (TypeError ''layer applied to a value that is not a tensor'')"
          using Pair ConvNormActivation_forward_result avgpool_of_block_result by blast
        then show ?thesis
          using Pair Inr \<open>features_forward h layers (PTensor x) = (l1, r1)\<close> \<open>r1 = Inr v1\<close> assms
          by (simp add: MobileNetV3_forward_def MobileNetV3_forward_impl_def features_forward_append)
      qed
    qed
  qed
qed

lemma forward_first_two:
  assumes "features model = FConv stem # FBlock b # rest" and "n \<noteq> 2"
  shows "MobileNetV3_forward h model (Tensor (n # ds) ex) =
           ([Str ''error in BN forward path''],
            Inl (TypeError ''object of type NoneType has no len()''))"
  using assms
  by (simp add: MobileNetV3_forward_def MobileNetV3_forward_impl_def ConvNormActivation_forward_def
      InvertedResidual_forward_def)

lemma MobileNetV3_init_features:
  assumes "MobileNetV3_init h setting last_channel num_classes dropout sel = (h', Inr model)"
  shows "\<exists>stem b bs head. features model = FConv stem # FBlock b # map FBlock bs @ [FConv head]"
proof -
  define stem where
    "stem = ConvNormActivation_init 3 (input_channels (h ! hd setting)) 3 2 1 1 (Some Hardswish) 0"
  from assms obtain fc layers1 head where
    ne: "setting \<noteq> []" and
    lp: "block_loop sel h 0 [FConv stem] setting = (h', Inr (fc, layers1))" and
    ft: "features model = layers1 @ [FConv head]"
    by (auto simp: MobileNetV3_init_def Let_def stem_def split: if_splits prod.splits sum.splits)
  from block_loop_ok [OF lp] obtain bs where
    bs: "layers1 = [FConv stem] @ map FBlock bs"
        "map (\<lambda>b. Inr (ir_iw b)) bs =
           map (\<lambda>j. let p = 0 + 1 + int j in
                     if p = 2 then py_item sel 3 else if p = 7 then py_item sel 4
                     else if p = 11 then py_item sel 5 else if p = 12 then py_item sel 6 else Inr 0)
             [0 ..< length setting]"
    by auto
  have "length bs = length setting"
    using arg_cong [OF bs(2), of length] by simp
  then obtain b bs' where "bs = b # bs'"
    using ne by (cases bs) auto
  then have "features model = FConv stem # FBlock b # map FBlock bs' @ [FConv head]"
    using ft bs(1) by simp
  then show ?thesis by blast
qed

text \<open>
  C1 on the code.  The top-level forward hands the input tensor itself to \<open>features\<close>,
  whose modules expect a pair.  For every network the constructor returns and every input
  tensor the call raises: the last module of \<open>features\<close> is a Conv-Norm-Activation block,
  which returns a list or \<^verbatim>\<open>None\<close>, never the tensor that the pooling layer needs.  When
  the batch size is not 2 the stem prints its error line and returns \<^verbatim>\<open>None\<close>, and the
  first Inverted Residual Block raises \<^verbatim>\<open>TypeError\<close> on \<^verbatim>\<open>len(None)\<close>.  No logits are
  returned.
\<close>

theorem forward_never_returns:
  assumes "MobileNetV3_init h setting last_channel num_classes dropout sel = (h', Inr model)"
  shows "(\<exists>l e. MobileNetV3_forward h' model x = (l, Inl e)) \<and>
         (\<forall>n ds ex. x = Tensor (n # ds) ex \<and> n \<noteq> 2 \<longrightarrow>
            MobileNetV3_forward h' model x =
              ([Str ''error in BN forward path''],
               Inl (TypeError ''object of type NoneType has no len()'')))"
proof -
  from MobileNetV3_init_features [OF assms] obtain stem b bs head where
    ft: "features model = FConv stem # FBlock b # map FBlock bs @ [FConv head]"
    by blast
  then have "features model = (FConv stem # FBlock b # map FBlock bs) @ [FConv head]"
    by simp
  from forward_impl_raises [OF this]
  have "\<exists>l e. MobileNetV3_forward h' model x = (l, Inl e)" .
  moreover have "MobileNetV3_forward h' model (Tensor (n # ds) ex) =
              ([Str ''error in BN forward path''],
               Inl (TypeError ''object of type NoneType has no len()''))" if "n \<noteq> 2" for n ds ex
    using forward_first_two [OF ft that] .
  ultimately show ?thesis by blast
qed

theorem forward_never_returns_witness:
  "\<exists>h' model.
     mobilenet_v3 [0, 0, 0, 0, 0, 0, 0] = (h', Inr model) \<and>
     MobileNetV3_forward h' model (Tensor [1, 3, 224, 224] (Given ''zeros'')) =
       ([Str ''error in BN forward path''],
        Inl (TypeError ''object of type NoneType has no len()''))"
proof -
  obtain h' model where
    eq: "MobileNetV3_init (fst (mobilenet_v3_conf [] ''mobilenet_v3_small'' 1 0 False False))
           [0, 1, 2, 3, 4, 5, 6, 7, 8, 9, 10] 1024 1000 (1 / 5) [0, 0, 0, 0, 0, 0, 0] = (h', Inr model)"
    using mobilenet_v3_plain by (auto simp: mobilenet_v3_def mobilenet_v3_conf_small)
  have m: "mobilenet_v3 [0, 0, 0, 0, 0, 0, 0] = (h', Inr model)"
    using eq by (simp add: mobilenet_v3_def mobilenet_v3_conf_small)
  from forward_never_returns [OF eq, of "Tensor [1, 3, 224, 224] (Given ''zeros'')"]
  have "MobileNetV3_forward h' model (Tensor [1, 3, 224, 224] (Given ''zeros'')) =
       ([Str ''error in BN forward path''],
        Inl (TypeError ''object of type NoneType has no len()''))"
    by simp
  then show ?thesis using m by blast
qed

subsection \<open>The residual connection\<close>

lemma conv2d_shape_4d:
  assumes "conv2d_shape cv s = Some [n, c', h', w']"
  shows "\<exists>c hh ww. s = [n, c, hh, ww] \<and> conv_valid cv \<and> int c = c_in cv \<and> c' = nat (c_out cv) \<and>
           conv_size cv hh = Some h' \<and> conv_size cv ww = Some w'"
  using assms
  by (auto elim!: conv2d_shape.elims split: if_splits option.splits)


lemma batch_norm_ok_4d:
  assumes "batch_norm_ok nf s"
  shows "\<exists>n c hh ww. s = [n, c, hh, ww] \<and> int c = nf"
  using assms by (auto elim: batch_norm_ok.elims)

lemma whitening_twice:
  assumes nl: "nl = (if mode = 1 then InstanceWhitening ch
                   else if mode = 2 then InstanceWhitening ch
                   else if mode = 3 then InstanceNorm2d ch False
                   else if mode = 4 then InstanceNorm2d ch True
                   else Sequential_empty)"
    and "layer_forward nl (PTensor t) = Inr x4"
    and "whitening_step mode nl x4 w = Inr (x5, w')"
  shows "w' = w \<and> mode \<noteq> 1 \<and> mode \<noteq> 2 \<and> (\<exists>t'. x5 = PTensor t' \<and> shape t' = shape t)"
proof -
  consider "mode = 1 \<or> mode = 2" | "mode = 3" | "mode = 4" | "mode \<notin> {1, 2, 3, 4}"
    by auto
  then show ?thesis
  proof cases
    case 1
    then show ?thesis
      using assms
      by (auto simp: whitening_step_def InstanceWhitening_forward_def split: option.splits if_splits)
  next
    case 2
    then show ?thesis
      using assms
      by (auto simp: whitening_step_def split: if_splits)
  next
    case 3
    then show ?thesis
      using assms
      by (auto simp: whitening_step_def split: if_splits)
  next
    case 4
    then show ?thesis
      using assms
      by (auto simp: whitening_step_def split: if_splits)
  qed
qed


lemma CNA_unrolled:
  assumes "c = ConvNormActivation_init cin cout k s g d activation mode"
  shows "ConvNormActivation_loop c 0 (cna_modules c) x w =
     (case layer_forward (Conv2d \<lparr>c_in = cin, c_out = cout, c_kernel = k, c_stride = s,
                                  c_padding = (k - 1) div 2, c_dilation = d, c_groups = g,
                                  c_bias = False\<rparr>) x of
        Inl e \<Rightarrow> Inl e
      | Inr x1 \<Rightarrow>
     (case layer_forward (BatchNorm2d cout) x1 of
        Inl e \<Rightarrow> Inl e
      | Inr x2 \<Rightarrow>
     (case (case activation of None \<Rightarrow> Inr x2 | Some a \<Rightarrow> layer_forward (Activation a) x2) of
        Inl e \<Rightarrow> Inl e
      | Inr x3 \<Rightarrow>
     (case layer_forward (cna_instance_norm_layer c) x3 of
        Inl e \<Rightarrow> Inl e
      | Inr x4 \<Rightarrow> whitening_step mode (cna_instance_norm_layer c) x4 w))))"
  by (cases activation)
     (auto simp: assms ConvNormActivation_init_def Let_def split: sum.splits)

lemma layer_forward_tensor_elim:
  assumes "layer_forward l v = Inr r" and "l \<noteq> Sequential_empty"
  obtains t where "v = PTensor t" and "layer_tensor l t = Inr r"
  using assms by (cases "(l, v)" rule: layer_forward.cases) auto

lemma CNA_stage:
  assumes c: "c = ConvNormActivation_init cin cout k s g d activation mode"
    and len: "py_len v = Inr 2" and g0: "py_getitem v 0 = Inr (PTensor t)"
    and g1: "py_getitem v (Suc 0) = Inr w"
    and fw: "ConvNormActivation_forward c v = (l, Inr r)"
  shows "l = [] \<and> mode \<noteq> 1 \<and> mode \<noteq> 2 \<and>
         (\<exists>t' n ci hh ww hh' ww'.
            r = PList [PTensor t', w] \<and> shape t = [n, ci, hh, ww] \<and> int ci = cin \<and>
            shape t' = [n, nat cout, hh', ww'] \<and>
            conv_valid \<lparr>c_in = cin, c_out = cout, c_kernel = k, c_stride = s,
                        c_padding = (k - 1) div 2, c_dilation = d, c_groups = g, c_bias = False\<rparr> \<and>
            conv_size \<lparr>c_in = cin, c_out = cout, c_kernel = k, c_stride = s,
                       c_padding = (k - 1) div 2, c_dilation = d, c_groups = g, c_bias = False\<rparr> hh
              = Some hh' \<and>
            conv_size \<lparr>c_in = cin, c_out = cout, c_kernel = k, c_stride = s,
                       c_padding = (k - 1) div 2, c_dilation = d, c_groups = g, c_bias = False\<rparr> ww
              = Some ww')"
proof -
  define cv where "cv = \<lparr>c_in = cin, c_out = cout, c_kernel = k, c_stride = s,
                        c_padding = (k - 1) div 2, c_dilation = d, c_groups = g, c_bias = False\<rparr>"
  define nl where "nl = cna_instance_norm_layer c"
  have nl: "nl = (if mode = 1 then InstanceWhitening cout
                   else if mode = 2 then InstanceWhitening cout
                   else if mode = 3 then InstanceNorm2d cout False
                   else if mode = 4 then InstanceNorm2d cout True
                   else Sequential_empty)"
    by (simp add: nl_def c ConvNormActivation_init_def Let_def)
  from fw len g0 g1 obtain x5 w5 where
    l: "l = []" and
    lp: "ConvNormActivation_loop c 0 (cna_modules c) (PTensor t) w = Inr (x5, w5)" and
    r: "r = PList [x5, w5]"
    by (auto simp: ConvNormActivation_forward_def ConvNormActivation_body_def split: sum.splits)
  from lp obtain x1 x2 x3 x4 where
    s1: "layer_forward (Conv2d cv) (PTensor t) = Inr x1" and
    s2: "layer_forward (BatchNorm2d cout) x1 = Inr x2" and
    s3: "(case activation of None \<Rightarrow> Inr x2 | Some a \<Rightarrow> layer_forward (Activation a) x2) = Inr x3" and
    s4: "layer_forward nl x3 = Inr x4" and
    s5: "whitening_step mode nl x4 w = Inr (x5, w5)"
    unfolding CNA_unrolled [OF c] cv_def [symmetric] nl_def [symmetric]
    by (auto split: sum.splits)
  from s1 obtain sh1 where
    x1: "x1 = PTensor (Tensor sh1 (Conv2dE cv (expr t)))" and sh1: "conv2d_shape cv (shape t) = Some sh1"
    by (auto split: option.splits)
  from s2 x1 obtain n c' hh' ww' where
    x2: "x2 = PTensor (Tensor sh1 (BatchNormE cout (Conv2dE cv (expr t))))" and
    sh1': "sh1 = [n, c', hh', ww']"
    by (auto split: if_splits dest: batch_norm_ok_4d)
  from s3 x2 obtain t3 where x3: "x3 = PTensor t3" and sh3: "shape t3 = sh1"
    by (cases activation) auto
  from whitening_twice [OF nl s4 [unfolded x3] s5] obtain t5 where
    w5: "w5 = w" and x5: "x5 = PTensor t5" and sh5: "shape t5 = sh1" and
    md: "mode \<noteq> 1" "mode \<noteq> 2"
    using sh3 by auto
  from conv2d_shape_4d [OF sh1 [unfolded sh1']] obtain ci hh ww where
    "shape t = [n, ci, hh, ww]" "conv_valid cv" "int ci = c_in cv" "c' = nat (c_out cv)"
    "conv_size cv hh = Some hh'" "conv_size cv ww = Some ww'"
    by blast
  then show ?thesis
    using l r w5 x5 sh5 sh1' md unfolding cv_def by auto
qed

lemma ConvNormActivation_whitening_raises:
  assumes c: "c = ConvNormActivation_init cin cout k s g d activation mode"
    and m: "mode = 1 \<or> mode = 2"
    and v: "v = PList [PTensor t, w] \<or> v = PTuple [PTensor t, w]"
  shows "\<exists>e. ConvNormActivation_forward c v = ([], Inl e)"
proof -
  have len: "py_len v = Inr 2" and g0: "py_getitem v 0 = Inr (PTensor t)"
    and g1: "py_getitem v (Suc 0) = Inr w"
    using v by auto
  have fw: "ConvNormActivation_forward c v = ([], ConvNormActivation_body c v)"
    using len by (simp add: ConvNormActivation_forward_def)
  show ?thesis
  proof (cases "ConvNormActivation_body c v")
    case (Inl e)
    then show ?thesis using fw by simp
  next
    case (Inr r)
    then have "ConvNormActivation_forward c v = ([], Inr r)" using fw by simp
    from CNA_stage [OF c len g0 g1 this] m show ?thesis by blast
  qed
qed



lemma ir_stage_Inr:
  assumes "ir_stage b i pr st = (l', Inr r)"
  obtains l v l2 where "st = (l, Inr v)" and "i < length (conv b)"
    and "conv_item_forward (conv b ! i) v = (l2, Inr r)"
  using assms
  by (auto simp: ir_stage_def split: prod.splits sum.splits if_splits)











subsection \<open>The accumulator over the small architecture\<close>

text \<open>
  C3 on the code, for the small architecture with the selector \<open>[0, 0, 0, 1, 0, 0, 0]\<close>:
  exactly one block (position 2) has whitening mode 1 or 2, so the claim expects an
  accumulator of length 1.  The forward pass over \<open>features\<close>, started on a pair with an
  empty accumulator, raises in the first Conv-Norm-Activation stage of that block: the
  whitening layer is applied once as an ordinary stage of the loop and once more in the
  last turn, where it receives the pair the first application returned.  No accumulator
  is returned.  (By \<open>ConvNormActivation_whitening_raises\<close> this happens in every
  Conv-Norm-Activation block with whitening mode 1 or 2, on every well-formed pair.)
\<close>

theorem accumulator_small_architecture:
  "(case mobilenet_v3 [0, 0, 0, 1, 0, 0, 0] of
      (h', Inl e) \<Rightarrow> False
    | (h', Inr model) \<Rightarrow>
        length (filter (\<lambda>f. case f of FBlock b \<Rightarrow> ir_iw b = 1 \<or> ir_iw b = 2 | FConv c \<Rightarrow> False)
                  (features model)) = 1 \<and>
        snd (features_forward h' (features model)
               (PList [PTensor (Tensor [1, 3, 224, 224] (Given ''x'')), PList []])) =
          Inl (TypeError ''layer applied to a value that is not a tensor''))"
  by (simp add: mobilenet_v3_def mobilenet_v3_conf_small MobileNetV3_init_def block_step_def InvertedResidual_init_def make_divisible_def
      py_int_def iw_layer_def py_item_def Let_def ConvNormActivation_init_def SqueezeExcitation_init_def
      ConvNormActivation_forward_def ConvNormActivation_body_def InvertedResidual_forward_def ir_stages_def ir_stage_def
      ir_finish_def SqueezeExcitation_forward_def SqueezeExcitation_body_def SqueezeExcitation_scale_def
      whitening_step_def conv_size_def conv_valid_def broadcast_def bdim_def InstanceWhitening_forward_def)

end
